theory Spec2Isabelle
  imports Main "HOL-Library.Sublist" "HOL-Library.AList"
begin

section \<open>Strings\<close>

text \<open>
  JavaScript strings are modelled as \<open>string\<close>. The scripts only inspect ASCII
  characters; the pictographs that decorate their console messages are left out.
  \<open>s.startsWith(p)\<close>, \<open>s.endsWith(p)\<close> and \<open>s.includes(p)\<close> are
  \<open>prefix p s\<close>, \<open>suffix p s\<close> and \<open>sublist p s\<close>.
\<close>

definition startsWith :: "string \<Rightarrow> string \<Rightarrow> bool" where
  "startsWith s p = prefix p s"

definition endsWith :: "string \<Rightarrow> string \<Rightarrow> bool" where
  "endsWith s p = suffix p s"

definition includesStr :: "string \<Rightarrow> string \<Rightarrow> bool" where
  "includesStr s p = sublist p s"

definition upperTable :: "(char \<times> char) list" where
  "upperTable = zip ''abcdefghijklmnopqrstuvwxyz'' ''ABCDEFGHIJKLMNOPQRSTUVWXYZ''"

definition lowerTable :: "(char \<times> char) list" where
  "lowerTable = zip ''ABCDEFGHIJKLMNOPQRSTUVWXYZ'' ''abcdefghijklmnopqrstuvwxyz''"

definition toUpperCase :: "char \<Rightarrow> char" where
  "toUpperCase c = (case map_of upperTable c of Some u \<Rightarrow> u | None \<Rightarrow> c)"

definition toLowerCase :: "char \<Rightarrow> char" where
  "toLowerCase c = (case map_of lowerTable c of Some l \<Rightarrow> l | None \<Rightarrow> c)"

text \<open>A number in a template literal: its decimal digits.\<close>

fun showNat :: "nat \<Rightarrow> string" where
  "showNat n =
     (if n < 10 then [''0123456789'' ! n]
      else showNat (n div 10) @ [''0123456789'' ! (n mod 10)])"

declare showNat.simps [simp del]

text \<open>A value that is a string or \<open>undefined\<close>, in a template literal and under \<open>!\<close>.\<close>

definition templ :: "string option \<Rightarrow> string" where
  "templ v = (case v of None \<Rightarrow> ''undefined'' | Some s \<Rightarrow> s)"

definition truthyS :: "string option \<Rightarrow> bool" where
  "truthyS v = (case v of None \<Rightarrow> False | Some s \<Rightarrow> s \<noteq> [])"

section \<open>JavaScript values and errors\<close>

text \<open>
  What \<open>JSON.parse\<close> returns. A number is kept as its decimal rendering (what
  \<open>String(n)\<close> gives), which is all the scripts can observe of it: a literal too
  large for a double, such as \<open>1e400\<close>, is \<open>JNum ''Infinity''\<close>. How a literal
  is rounded to a finite double is outside the model. An object is its list of own
  properties in order. \<open>undefined\<close> is \<open>None\<close> of \<open>json option\<close>.
\<close>

datatype json =
    JNull
  | JBool bool
  | JNum string
  | JStr string
  | JArr "json list"
  | JObj "(string \<times> json) list"

text \<open>
  An error carries its message. A \<open>TypeError\<close> raised by the engine has the message
  that V8 gives it.
\<close>

datatype error = Error string | TypeError string | SyntaxError string

definition message :: "error \<Rightarrow> string" where
  "message e = (case e of Error msg \<Rightarrow> msg | TypeError msg \<Rightarrow> msg | SyntaxError msg \<Rightarrow> msg)"

definition quoted :: "string \<Rightarrow> string" where
  "quoted s = [CHR 0x27] @ s @ [CHR 0x27]"

definition cannotRead :: "string \<Rightarrow> string \<Rightarrow> error" where
  "cannotRead v k = TypeError (''Cannot read properties of '' @ v @ '' (reading '' @ quoted k @ '')'')"

definition cannotSet :: "string \<Rightarrow> string \<Rightarrow> error" where
  "cannotSet v k = TypeError (''Cannot set properties of '' @ v @ '' (setting '' @ quoted k @ '')'')"

definition cannotCreate :: "string \<Rightarrow> string \<Rightarrow> string \<Rightarrow> error" where
  "cannotCreate k ty v =
     TypeError (''Cannot create property '' @ quoted k @ '' on '' @ ty @ '' '' @ quoted v)"

fun truthy :: "json \<Rightarrow> bool" where
  "truthy JNull = False"
| "truthy (JBool b) = b"
| "truthy (JNum n) = (n \<noteq> ''0'' \<and> n \<noteq> ''NaN'')"
| "truthy (JStr s) = (s \<noteq> [])"
| "truthy (JArr xs) = True"
| "truthy (JObj kvs) = True"

definition truthyV :: "json option \<Rightarrow> bool" where
  "truthyV v = (case v of None \<Rightarrow> False | Some j \<Rightarrow> truthy j)"

text \<open>
  \<open>v.k\<close> for a property name \<open>k\<close> that no prototype defines (the scripts read
  \<open>miniapp\<close>, \<open>name\<close> and \<open>homeUrl\<close>): a \<open>TypeError\<close> on \<open>null\<close> and
  \<open>undefined\<close>, the own property of an object, \<open>undefined\<close> on anything else.
\<close>

fun getProp :: "json option \<Rightarrow> string \<Rightarrow> error + json option" where
  "getProp None k = Inl (cannotRead ''undefined'' k)"
| "getProp (Some JNull) k = Inl (cannotRead ''null'' k)"
| "getProp (Some (JObj kvs)) k = Inr (map_of kvs k)"
| "getProp (Some v) k = Inr None"

text \<open>\<open>v?.k\<close>: \<open>undefined\<close> when \<open>v\<close> is \<open>null\<close> or \<open>undefined\<close>.\<close>

fun optGet :: "json option \<Rightarrow> string \<Rightarrow> error + json option" where
  "optGet None k = Inr None"
| "optGet (Some JNull) k = Inr None"
| "optGet (Some v) k = getProp (Some v) k"

text \<open>
  \<open>v.k = x\<close> in a module (strict mode), for a \<open>k\<close> that is not an array index,
  as the value is seen by \<open>JSON.stringify\<close> afterwards: an object gets or replaces
  the property; an array takes the property but does not serialise it; a string, number
  or boolean raises a \<open>TypeError\<close>, as does \<open>null\<close>.
\<close>

fun setProp :: "json \<Rightarrow> string \<Rightarrow> json \<Rightarrow> error + json" where
  "setProp (JObj kvs) k x = Inr (JObj (AList.update k x kvs))"
| "setProp (JArr xs) k x = Inr (JArr xs)"
| "setProp JNull k x = Inl (cannotSet ''null'' k)"
| "setProp (JBool b) k x = Inl (cannotCreate k ''boolean'' (if b then ''true'' else ''false''))"
| "setProp (JNum n) k x = Inl (cannotCreate k ''number'' n)"
| "setProp (JStr s) k x = Inl (cannotCreate k ''string'' s)"

text \<open>
  \<open>String(v)\<close>, as a template literal and the \<open>URL\<close> constructor apply it. An
  object is converted by its \<open>toString\<close>: the one of \<open>Object.prototype\<close>, unless
  the object has an own property of that name, which after \<open>JSON.parse\<close> is never a
  function, and then the conversion raises a \<open>TypeError\<close>. An array joins the
  conversions of its elements with commas, \<open>null\<close> giving the empty string.
\<close>

fun toStringJS :: "json \<Rightarrow> error + string"
  and joinStrings :: "json list \<Rightarrow> error + string" where
  "toStringJS JNull = Inr ''null''"
| "toStringJS (JBool b) = Inr (if b then ''true'' else ''false'')"
| "toStringJS (JNum n) = Inr n"
| "toStringJS (JStr s) = Inr s"
| "toStringJS (JArr xs) = joinStrings xs"
| "toStringJS (JObj kvs) =
     (if map_of kvs ''toString'' = None then Inr ''[object Object]''
      else Inl (TypeError ''Cannot convert object to primitive value''))"
| "joinStrings [] = Inr []"
| "joinStrings (x # xs) =
     (case (if x = JNull then Inr [] else toStringJS x) of
        Inl e \<Rightarrow> Inl e
      | Inr s \<Rightarrow>
          if xs = [] then Inr s
          else (case joinStrings xs of Inl e \<Rightarrow> Inl e | Inr r \<Rightarrow> Inr (s @ '','' @ r)))"

text \<open>
  \<open>JSON.parse(JSON.stringify(v, null, 2))\<close>: what is read back from a file into which
  \<open>v\<close> was written. \<open>JSON.stringify\<close> writes a number that is not finite as
  \<open>null\<close> and everything else as it is.
\<close>

definition nonFinite :: "string \<Rightarrow> bool" where
  "nonFinite n = (n = ''Infinity'' \<or> n = ''-Infinity'' \<or> n = ''NaN'')"

primrec stringified :: "json \<Rightarrow> json" where
  "stringified JNull = JNull"
| "stringified (JBool b) = JBool b"
| "stringified (JNum n) = (if nonFinite n then JNull else JNum n)"
| "stringified (JStr s) = JStr s"
| "stringified (JArr xs) = JArr (map stringified xs)"
| "stringified (JObj kvs) = JObj (map (map_prod id stringified) kvs)"

text \<open>No number anywhere in the value is infinite or \<open>NaN\<close>.\<close>

fun allFinite :: "json \<Rightarrow> bool" where
  "allFinite (JNum n) = (\<not> nonFinite n)"
| "allFinite (JArr xs) = (\<forall>x \<in> set xs. allFinite x)"
| "allFinite (JObj kvs) = (\<forall>p \<in> set kvs. allFinite (snd p))"
| "allFinite v = True"

section \<open>The world the scripts run in\<close>

text \<open>
  The directory \<open>public/images\<close> is \<open>None\<close> when it does not exist and a list of
  entries otherwise. \<open>unlinkFails\<close> marks an entry on which \<open>unlinkSync\<close> throws
  (a sub-directory, a protected file). A listing that exists is assumed readable.
\<close>

datatype buffer = Bytes string | Base64 string

record dirent =
  fileName :: string
  fileData :: buffer
  unlinkFails :: bool

text \<open>
  The manifest \<open>public/.well-known/farcaster.json\<close> is represented by what
  \<open>existsSync\<close>, \<open>readFileSync\<close> and \<open>JSON.parse\<close> make of it.
  \<open>Unreadable\<close> and \<open>Malformed\<close> carry the message of the error that
  \<open>readFileSync\<close>, respectively \<open>JSON.parse\<close>, raises. A file written
  with \<open>JSON.stringify(config, null, 2)\<close> is represented by
  \<open>Json (stringified config)\<close>, the value its text parses to; the layout of the
  text is not modelled.
\<close>

datatype manifest_file =
    Absent
  | Unreadable string
  | Malformed string
  | Json json

record response =
  status :: nat
  statusText :: string
  contentType :: "string option"
  body :: string

datatype fetch_reply = FetchRejects string | FetchResolves response

record image_data =
  b64_json :: "string option"

record images_response =
  data :: "image_data list option"

datatype api_reply = ApiRejects string | ApiResolves images_response

record viewport =
  width :: nat
  height :: nat

datatype request =
    PostScreenshot string string viewport
  | GetUrl string
  | ImagesCreate string string nat nat nat

datatype line = Warn string | Err string | ErrWith string error

text \<open>
  \<open>env\<close> is \<open>process.env\<close>. \<open>imagesWriteErr\<close> and \<open>manifestWriteErr\<close> hold the
  message with which creating or writing the file fails, if it does; a failed write
  leaves the file as it was. \<open>urlOrigin s\<close> is \<open>new URL(s).origin\<close>, \<open>None\<close> when
  the constructor throws. \<open>fetchReplies\<close> are the answers \<open>fetch\<close> will get, in
  order (none left: the network is down), \<open>togetherReply\<close> the answer of the image
  service. \<open>requests\<close> records the requests issued, \<open>stderr\<close> the lines of
  \<open>console.warn\<close> and \<open>console.error\<close>; \<open>console.log\<close> is not modelled.
\<close>

record world =
  env :: "string \<rightharpoonup> string"
  imagesDir :: "dirent list option"
  imagesWriteErr :: "string option"
  manifestFile :: manifest_file
  manifestWriteErr :: "string option"
  urlOrigin :: "string \<rightharpoonup> string"
  fetchReplies :: "fetch_reply list"
  togetherReply :: api_reply
  requests :: "request list"
  stderr :: "line list"

text \<open>
  A function that acts on the world returns its result, or the error it raises, and the
  world it leaves. For a function \<open>f\<close> whose body is
  \<open>try { ... } catch (error) { ... }\<close>, \<open>f_try\<close> is the \<open>try\<close> block and
  \<open>f\<close> treats its error as the \<open>catch\<close> block does. For the two entry points,
  \<open>f_steps\<close> is what follows the checks of the environment.
\<close>

type_synonym 'a io = "(error + 'a) \<times> world"

definition logLines :: "line list \<Rightarrow> world \<Rightarrow> world" where
  "logLines ls w = w\<lparr>stderr := stderr w @ ls\<rparr>"

definition fetch :: "request \<Rightarrow> world \<Rightarrow> fetch_reply \<times> world" where
  "fetch req w =
     (case fetchReplies w of
        [] \<Rightarrow> (FetchRejects ''fetch failed'', w\<lparr>requests := requests w @ [req]\<rparr>)
      | r # rs \<Rightarrow> (r, w\<lparr>requests := requests w @ [req], fetchReplies := rs\<rparr>))"

definition ok :: "response \<Rightarrow> bool" where
  "ok r = (200 \<le> status r \<and> status r \<le> 299)"

fun writeFile :: "string \<Rightarrow> buffer \<Rightarrow> dirent list \<Rightarrow> dirent list" where
  "writeFile f b [] = [\<lparr>fileName = f, fileData = b, unlinkFails = False\<rparr>]"
| "writeFile f b (e # es) =
     (if fileName e = f then e\<lparr>fileData := b\<rparr> # es else e # writeFile f b es)"

text \<open>
  The three steps both scripts use to save an image: \<open>existsSync(dir)\<close>,
  \<open>mkdirSync(dir, { recursive: true })\<close> when it is missing, \<open>writeFileSync\<close>.
\<close>

definition writeImage :: "string \<Rightarrow> buffer \<Rightarrow> world \<Rightarrow> error + world" where
  "writeImage filename buf w =
     (case imagesWriteErr w of
        Some msg \<Rightarrow> Inl (Error msg)
      | None \<Rightarrow>
          Inr (w\<lparr>imagesDir :=
                 Some (writeFile filename buf (case imagesDir w of None \<Rightarrow> [] | Some d \<Rightarrow> d))\<rparr>))"

fun unlinkSync :: "string \<Rightarrow> dirent list \<Rightarrow> error + dirent list" where
  "unlinkSync file [] = Inl (Error ''ENOENT'')"
| "unlinkSync file (e # es) =
     (if fileName e = file then (if unlinkFails e then Inl (Error ''EPERM'') else Inr es)
      else (case unlinkSync file es of Inl err \<Rightarrow> Inl err | Inr es' \<Rightarrow> Inr (e # es')))"

text \<open>
  The loop \<open>files.forEach(file => { try { unlinkSync(...) } catch { console.warn(...) } })\<close>
  of both cleaners.
\<close>

fun unlinkEach :: "string list \<Rightarrow> dirent list \<Rightarrow> line list \<Rightarrow> dirent list \<times> line list" where
  "unlinkEach [] dir log = (dir, log)"
| "unlinkEach (file # files) dir log =
     (case unlinkSync file dir of
        Inr dir' \<Rightarrow> unlinkEach files dir' log
      | Inl err \<Rightarrow> unlinkEach files dir (log @ [Warn (''   Failed to delete: '' @ file)]))"

section \<open>The screenshot script\<close>

subsection \<open>\<open>ensureProtocol\<close>\<close>

text \<open>
  The test \<open>/^https?:\/\//i.test(url)\<close>. The pattern is a sequence of atoms, a
  character or an optional character, anchored at the start of the input. Under the
  \<open>i\<close> flag two characters match when their upper-case forms agree.
\<close>

datatype atom = Lit char | Opt char

fun matchAt :: "atom list \<Rightarrow> string \<Rightarrow> bool" where
  "matchAt [] s = True"
| "matchAt (Lit c # as) s =
     (case s of [] \<Rightarrow> False | x # xs \<Rightarrow> toUpperCase x = toUpperCase c \<and> matchAt as xs)"
| "matchAt (Opt c # as) s =
     ((case s of [] \<Rightarrow> False | x # xs \<Rightarrow> toUpperCase x = toUpperCase c \<and> matchAt as xs)
      \<or> matchAt as s)"

definition httpPattern :: "atom list" where
  "httpPattern =
     [Lit CHR ''h'', Lit CHR ''t'', Lit CHR ''t'', Lit CHR ''p'', Opt CHR ''s'',
      Lit CHR '':'', Lit CHR ''/'', Lit CHR ''/'']"

definition ensureProtocol :: "string \<Rightarrow> string" where
  "ensureProtocol url = (if \<not> matchAt httpPattern url then ''https://'' @ url else url)"

text \<open>
  The specification's wording: \<open>u\<close> begins with \<open>pre\<close> in any letter case when the
  lower-cased \<open>u\<close> starts with \<open>pre\<close>.
\<close>

definition beginsWithAnyCase :: "string \<Rightarrow> string \<Rightarrow> bool" where
  "beginsWithAnyCase pre u = prefix pre (map toLowerCase u)"

subsection \<open>\<open>generateFilename\<close>\<close>

text \<open>
  \<open>now\<close> is the reading \<open>new Date().toISOString()\<close> at the call, an input of the
  model; \<open>replace(/[:.]/g, '-')\<close> rewrites every colon and dot. The parameter
  \<open>pre\<close> is \<open>None\<close> when the caller leaves the prefix out.
\<close>

definition replaceColonDot :: "string \<Rightarrow> string" where
  "replaceColonDot s = map (\<lambda>c. if c = CHR '':'' \<or> c = CHR ''.'' then CHR ''-'' else c) s"

definition generateFilename :: "string \<Rightarrow> string option \<Rightarrow> string \<Rightarrow> string" where
  "generateFilename ty pre now =
     (let timestamp = replaceColonDot now
      in (case pre of None \<Rightarrow> ''screenshot'' | Some p \<Rightarrow> p) @ ''-'' @ ty @ ''-'' @ timestamp @ ''.png'')"

subsection \<open>\<open>takeScreenshot\<close> and \<open>generateSingleScreenshot\<close>\<close>

text \<open>
  \<open>SCREENSHOT_CONFIG.baseUrl\<close> is read from the environment when the module is
  loaded; the environment is taken not to change afterwards.
\<close>

definition baseUrl :: "world \<Rightarrow> string option" where
  "baseUrl w = env w ''BROWSERLESS_API_URL''"

definition embedViewport :: viewport where
  "embedViewport = \<lparr>width = 768, height = 512\<rparr>"

definition splashViewport :: viewport where
  "splashViewport = \<lparr>width = 424, height = 695\<rparr>"

definition takeScreenshot_try :: "string \<Rightarrow> viewport \<Rightarrow> string \<Rightarrow> world \<Rightarrow> string io" where
  "takeScreenshot_try url vp filename w =
     (let fullUrl = ensureProtocol url;
          apiUrl = templ (baseUrl w) @ ''/screenshot?token=dawdawdwa''
      in case fetch (PostScreenshot apiUrl fullUrl vp) w of
           (FetchRejects msg, w1) \<Rightarrow> (Inl (Error msg), w1)
         | (FetchResolves r, w1) \<Rightarrow>
             if \<not> ok r then
               (Inl (Error (''API request failed: '' @ showNat (status r) @ '' '' @ statusText r
                            @ ''\<newline>'' @ body r)), w1)
             else if \<not> (case contentType r of None \<Rightarrow> False | Some ct \<Rightarrow> startsWith ct ''image/'') then
               (Inl (Error (''Expected image response, got ''
                            @ (case contentType r of None \<Rightarrow> ''null'' | Some ct \<Rightarrow> ct)
                            @ ''\<newline>'' @ body r)), w1)
             else (case writeImage filename (Bytes (body r)) w1 of
                     Inl e \<Rightarrow> (Inl e, w1)
                   | Inr w2 \<Rightarrow> (Inr filename, w2)))"

definition takeScreenshot :: "string \<Rightarrow> viewport \<Rightarrow> string \<Rightarrow> world \<Rightarrow> string io" where
  "takeScreenshot url vp filename w =
     (case takeScreenshot_try url vp filename w of
        (Inl e, w') \<Rightarrow> (Inl e, logLines [ErrWith ''Screenshot failed:'' e] w')
      | (Inr f, w') \<Rightarrow> (Inr f, w'))"

definition generateSingleScreenshot ::
    "string \<Rightarrow> viewport \<Rightarrow> string \<Rightarrow> string \<Rightarrow> world \<Rightarrow> string io" where
  "generateSingleScreenshot url vp ty now w =
     (let filename = generateFilename ty (Some ''screenshot'') now
      in case takeScreenshot url vp filename w of
           (Inl e, w') \<Rightarrow>
             (Inl e, logLines [ErrWith (''Failed to generate '' @ ty @ '' screenshot:'') e] w')
         | (Inr f, w') \<Rightarrow> (Inr filename, w'))"

subsection \<open>\<open>clearExistingScreenshots\<close>\<close>

definition isScreenshotFile :: "string \<Rightarrow> bool" where
  "isScreenshotFile file =
     ((startsWith file ''screenshot-embed-'' \<or> startsWith file ''screenshot-splash-'')
      \<and> endsWith file ''.png'')"

definition clearExistingScreenshots :: "world \<Rightarrow> world" where
  "clearExistingScreenshots w =
     (case imagesDir w of
        None \<Rightarrow> w
      | Some dir \<Rightarrow>
          (let files = map fileName dir;
               screenshotFiles = filter isScreenshotFile files
           in if length screenshotFiles > 0 then
                (case unlinkEach screenshotFiles dir (stderr w) of
                   (dir', log') \<Rightarrow> w\<lparr>imagesDir := Some dir', stderr := log'\<rparr>)
              else w))"

subsection \<open>\<open>updateFarcasterConfig\<close>\<close>

text \<open>
  \<open>config.miniapp\<close> is a reference into \<open>config\<close>: an assignment
  \<open>config.miniapp.k = x\<close> changes the object that \<open>config\<close> holds.
\<close>

definition withMiniapp :: "json \<Rightarrow> json \<Rightarrow> json" where
  "withMiniapp config m =
     (case config of JObj kvs \<Rightarrow> JObj (AList.update ''miniapp'' m kvs) | _ \<Rightarrow> config)"

definition setMiniappProp :: "json \<Rightarrow> string \<Rightarrow> json \<Rightarrow> error + json" where
  "setMiniappProp config k x =
     (case getProp (Some config) ''miniapp'' of
        Inl e \<Rightarrow> Inl e
      | Inr None \<Rightarrow> Inl (cannotSet ''undefined'' k)
      | Inr (Some m) \<Rightarrow>
          (case setProp m k x of Inl e \<Rightarrow> Inl e | Inr m' \<Rightarrow> Inr (withMiniapp config m')))"

text \<open>\<open>JSON.parse(readFileSync(configPath, 'utf8'))\<close>.\<close>

definition parseManifest :: "world \<Rightarrow> error + json" where
  "parseManifest w =
     (case manifestFile w of
        Absent \<Rightarrow> Inl (Error ''ENOENT'')
      | Unreadable msg \<Rightarrow> Inl (Error msg)
      | Malformed msg \<Rightarrow> Inl (SyntaxError msg)
      | Json config \<Rightarrow> Inr config)"

record screenshot_filenames =
  embed :: "string option"
  splash :: "string option"

definition writeManifest :: "json \<Rightarrow> world \<Rightarrow> unit io" where
  "writeManifest config w =
     (case manifestWriteErr w of
        Some msg \<Rightarrow> (Inl (Error msg), w)
      | None \<Rightarrow> (Inr (), w\<lparr>manifestFile := Json (stringified config)\<rparr>))"

text \<open>
  The statements between \<open>JSON.parse\<close> and \<open>writeFileSync\<close>. \<open>domain\<close> is
  \<open>None\<close> when the caller passes an unset environment variable.
\<close>

definition patchScreenshots :: "string option \<Rightarrow> screenshot_filenames \<Rightarrow> json \<Rightarrow> error + json" where
  "patchScreenshots domain names config =
     (let base = ''https://'' @ templ domain
      in case getProp (Some config) ''miniapp'' of
           Inl e \<Rightarrow> Inl e
         | Inr miniapp \<Rightarrow>
             if truthyV miniapp then
               (case (if truthyS (embed names)
                      then setMiniappProp config ''imageUrl''
                             (JStr (base @ ''/images/'' @ templ (embed names)))
                      else Inr config) of
                  Inl e \<Rightarrow> Inl e
                | Inr c1 \<Rightarrow>
                    (case (if truthyS (splash names)
                           then setMiniappProp c1 ''splashImageUrl''
                                  (JStr (base @ ''/images/'' @ templ (splash names)))
                           else Inr c1) of
                       Inl e \<Rightarrow> Inl e
                     | Inr c2 \<Rightarrow>
                         (case setMiniappProp c2 ''homeUrl'' (JStr base) of
                            Inl e \<Rightarrow> Inl e
                          | Inr c3 \<Rightarrow>
                              setMiniappProp c3 ''webhookUrl'' (JStr (base @ ''/api/webhook'')))))
             else Inr config)"

definition updateFarcasterConfig_try ::
    "string option \<Rightarrow> screenshot_filenames \<Rightarrow> world \<Rightarrow> unit io" where
  "updateFarcasterConfig_try domain names w =
     (if manifestFile w = Absent then
        (Inr (), logLines [Warn ''Warning: farcaster.json file not found, skipping update''] w)
      else case parseManifest w of
             Inl e \<Rightarrow> (Inl e, w)
           | Inr config \<Rightarrow>
               (case patchScreenshots domain names config of
                  Inl e \<Rightarrow> (Inl e, w)
                | Inr config' \<Rightarrow> writeManifest config' w))"

definition updateFarcasterConfig ::
    "string option \<Rightarrow> screenshot_filenames \<Rightarrow> world \<Rightarrow> unit io" where
  "updateFarcasterConfig domain names w =
     (case updateFarcasterConfig_try domain names w of
        (Inl e, w') \<Rightarrow> (Inr (), logLines [ErrWith ''Error updating farcaster.json:'' e] w')
      | (Inr u, w') \<Rightarrow> (Inr (), w'))"

subsection \<open>\<open>generateScreenshots\<close>\<close>

text \<open>
  \<open>Exit n\<close> is \<open>process.exit(n)\<close>; \<open>Returns\<close> is the function running to its
  end. \<open>nowEmbed\<close> and \<open>nowSplash\<close> are the clock readings of the two calls of
  \<open>generateFilename\<close>. The pause between the two screenshots has no effect on the
  world.
\<close>

datatype outcome = Exit nat | Returns

definition generateScreenshots_steps :: "string \<Rightarrow> string \<Rightarrow> string \<Rightarrow> world \<Rightarrow> unit io" where
  "generateScreenshots_steps appDomain nowEmbed nowSplash w =
     (let w1 = clearExistingScreenshots w
      in case generateSingleScreenshot appDomain embedViewport ''embed'' nowEmbed w1 of
           (Inl e, w2) \<Rightarrow> (Inl e, w2)
         | (Inr embedResult, w2) \<Rightarrow>
             (case generateSingleScreenshot appDomain splashViewport ''splash'' nowSplash w2 of
                (Inl e, w3) \<Rightarrow> (Inl e, w3)
              | (Inr splashResult, w3) \<Rightarrow>
                  updateFarcasterConfig (env w3 ''NEXT_PUBLIC_APP_DOMAIN'')
                    \<lparr>embed = Some embedResult, splash = Some splashResult\<rparr> w3))"

definition generateScreenshots :: "string \<Rightarrow> string \<Rightarrow> world \<Rightarrow> outcome \<times> world" where
  "generateScreenshots nowEmbed nowSplash w =
     (let appDomain = env w ''SCREENSHOT_URL''
      in if \<not> truthyS appDomain then
           (Exit 1, logLines [Err ''Error: SCREENSHOT_URL is not set.'',
                              Err ''   Please add your app domain to your .env file.'',
                              Err ''   Example: SCREENSHOT_URL=your-domain.ngrok.app''] w)
         else if \<not> truthyS (baseUrl w) then
           (Exit 1, logLines [Err ''Error: BROWSERLESS_API_URL is not set.'',
                              Err ''   Please add your browserless API URL to your .env file.''] w)
         else (case generateScreenshots_steps (templ appDomain) nowEmbed nowSplash w of
                 (Inl e, w') \<Rightarrow>
                   (Exit 1, logLines [Err ''Error generating screenshots:'', ErrWith [] e] w')
               | (Inr u, w') \<Rightarrow> (Returns, w')))"

section \<open>The icon script\<close>

subsection \<open>\<open>generateFilename\<close> and \<open>clearExistingIcons\<close>\<close>

definition generateFilename_flux :: "string \<Rightarrow> string option \<Rightarrow> string \<Rightarrow> string" where
  "generateFilename_flux ty pre now =
     (let timestamp = replaceColonDot now
      in (case pre of None \<Rightarrow> ''flux'' | Some p \<Rightarrow> p) @ ''-'' @ ty @ ''-'' @ timestamp @ ''.png'')"

definition isIconFile :: "string \<Rightarrow> bool" where
  "isIconFile file = (startsWith file ''flux-icon-'' \<and> endsWith file ''.png'')"

definition clearExistingIcons :: "world \<Rightarrow> world" where
  "clearExistingIcons w =
     (case imagesDir w of
        None \<Rightarrow> w
      | Some dir \<Rightarrow>
          (let files = map fileName dir;
               iconFiles = filter isIconFile files
           in case unlinkEach iconFiles dir (stderr w) of
                (dir', log') \<Rightarrow> w\<lparr>imagesDir := Some dir', stderr := log'\<rparr>))"

subsection \<open>\<open>downloadAndSaveImage\<close> and \<open>generateIcon\<close>\<close>

text \<open>
  Of the object \<open>{ filename, filePath }\<close> that \<open>downloadAndSaveImage\<close> returns,
  the callers read \<open>filename\<close> only; the model returns it alone.
\<close>

definition downloadAndSaveImage_try :: "string \<Rightarrow> string \<Rightarrow> bool \<Rightarrow> world \<Rightarrow> string io" where
  "downloadAndSaveImage_try base64Data filename isBase64 w =
     (case (if isBase64 then (Inr (Base64 base64Data), w)
            else (case fetch (GetUrl base64Data) w of
                    (FetchRejects msg, w1) \<Rightarrow> (Inl (Error msg), w1)
                  | (FetchResolves r, w1) \<Rightarrow>
                      if \<not> ok r then
                        (Inl (Error (''Failed to download image: '' @ showNat (status r)
                                     @ '' '' @ statusText r)), w1)
                      else (Inr (Bytes (body r)), w1))) of
        (Inl e, w1) \<Rightarrow> (Inl e, w1)
      | (Inr buf, w1) \<Rightarrow>
          (case writeImage filename buf w1 of
             Inl e \<Rightarrow> (Inl e, w1)
           | Inr w2 \<Rightarrow> (Inr filename, w2)))"

definition downloadAndSaveImage :: "string \<Rightarrow> string \<Rightarrow> bool \<Rightarrow> world \<Rightarrow> string io" where
  "downloadAndSaveImage base64Data filename isBase64 w =
     (case downloadAndSaveImage_try base64Data filename isBase64 w of
        (Inl e, w') \<Rightarrow> (Inl e, logLines [ErrWith ''Failed to save image:'' e] w')
      | (Inr f, w') \<Rightarrow> (Inr f, w'))"

definition FLUX_MODEL_id :: string where
  "FLUX_MODEL_id = ''black-forest-labs/FLUX.1-schnell-Free''"

definition FLUX_MODEL_defaultSteps :: nat where
  "FLUX_MODEL_defaultSteps = 4"

definition ICON_DIMENSIONS :: viewport where
  "ICON_DIMENSIONS = \<lparr>width = 208, height = 208\<rparr>"

text \<open>
  \<open>together.images.create\<close> answers with \<open>togetherReply\<close>; the random seed of the
  request is not recorded. \<open>dimensions\<close> is \<open>None\<close> when the caller leaves it out.
\<close>

definition generateIcon_try :: "string \<Rightarrow> viewport option \<Rightarrow> string \<Rightarrow> world \<Rightarrow> string io" where
  "generateIcon_try prompt dimensions now w =
     (let dims = (case dimensions of None \<Rightarrow> ICON_DIMENSIONS | Some d \<Rightarrow> d);
          w1 = w\<lparr>requests := requests w
                   @ [ImagesCreate FLUX_MODEL_id prompt (width dims) (height dims)
                        FLUX_MODEL_defaultSteps]\<rparr>
      in case togetherReply w1 of
           ApiRejects msg \<Rightarrow> (Inl (Error msg), w1)
         | ApiResolves r \<Rightarrow>
             (case data r of
                None \<Rightarrow> (Inl (Error ''No image data received from API''), w1)
              | Some [] \<Rightarrow> (Inl (Error ''No image data received from API''), w1)
              | Some (imageData # others) \<Rightarrow>
                  if \<not> truthyS (b64_json imageData) then
                    (Inl (Error ''No base64 image data in response''), w1)
                  else
                    (let filename = generateFilename_flux ''icon'' (Some ''flux'') now
                     in downloadAndSaveImage (templ (b64_json imageData)) filename True w1)))"

definition generateIcon :: "string \<Rightarrow> viewport option \<Rightarrow> string \<Rightarrow> world \<Rightarrow> string io" where
  "generateIcon prompt dimensions now w =
     (case generateIcon_try prompt dimensions now w of
        (Inl e, w') \<Rightarrow> (Inl e, logLines [ErrWith ''Failed to generate icon image:'' e] w')
      | (Inr f, w') \<Rightarrow> (Inr f, w'))"

subsection \<open>\<open>getAppNameFromConfig\<close> and \<open>generateIconPrompt\<close>\<close>

definition getAppNameFromConfig_try :: "world \<Rightarrow> error + json" where
  "getAppNameFromConfig_try w =
     (case parseManifest w of
        Inl e \<Rightarrow> Inl e
      | Inr config \<Rightarrow>
          (case getProp (Some config) ''miniapp'' of
             Inl e \<Rightarrow> Inl e
           | Inr miniapp \<Rightarrow>
               (case optGet miniapp ''name'' of
                  Inl e \<Rightarrow> Inl e
                | Inr nm \<Rightarrow>
                    (case nm of
                       None \<Rightarrow> Inr (JStr ''Mini App'')
                     | Some v \<Rightarrow> Inr (if truthy v then v else JStr ''Mini App'')))))"

definition getAppNameFromConfig :: "world \<Rightarrow> json \<times> world" where
  "getAppNameFromConfig w =
     (case getAppNameFromConfig_try w of
        Inl e \<Rightarrow>
          (JStr ''Mini App'',
           logLines [Warn ''Warning: Could not read app name from farcaster.json, using default''] w)
      | Inr v \<Rightarrow> (v, w))"

text \<open>
  The template literal converts \<open>appName\<close> to a string, and raises when that
  conversion does.
\<close>

definition generateIconPrompt :: "json \<Rightarrow> error + string" where
  "generateIconPrompt appName =
     (case toStringJS appName of
        Inl e \<Rightarrow> Inl e
      | Inr s \<Rightarrow>
          Inr (''Create a clean, minimalist app icon with the text '' @ [CHR 0x27] @ s
               @ [CHR 0x27]
               @ '' in bold, modern typography. Square format, centered text, simple background, high contrast, professional design suitable for mobile app icon. Clean and readable at small sizes.''))"

subsection \<open>\<open>updateFarcasterConfigWithIcon\<close>\<close>

text \<open>
  The statements between \<open>JSON.parse\<close> and \<open>writeFileSync\<close>:
  \<open>resolveDomain\<close> is the conditional expression that gives \<open>domain\<close>,
  \<open>patchIcon\<close> the guarded assignment of \<open>iconUrl\<close> after it.
\<close>

definition resolveDomain :: "json \<Rightarrow> world \<Rightarrow> error + string" where
  "resolveDomain config w =
     (case getProp (Some config) ''miniapp'' of
        Inl e \<Rightarrow> Inl e
      | Inr miniapp \<Rightarrow>
          (case optGet miniapp ''homeUrl'' of
             Inl e \<Rightarrow> Inl e
           | Inr homeUrl \<Rightarrow>
               (case homeUrl of
                  None \<Rightarrow> Inr (''https://'' @ templ (env w ''NEXT_PUBLIC_APP_DOMAIN''))
                | Some h \<Rightarrow>
                    if truthy h then
                      (case toStringJS h of
                         Inl e \<Rightarrow> Inl e
                       | Inr u \<Rightarrow>
                           (case urlOrigin w u of
                              None \<Rightarrow> Inl (TypeError ''Invalid URL'')
                            | Some origin \<Rightarrow> Inr origin))
                    else Inr (''https://'' @ templ (env w ''NEXT_PUBLIC_APP_DOMAIN'')))))"

definition patchIcon :: "string \<Rightarrow> json \<Rightarrow> world \<Rightarrow> error + json" where
  "patchIcon iconFilename config w =
     (case resolveDomain config w of
        Inl e \<Rightarrow> Inl e
      | Inr domain \<Rightarrow>
          (case getProp (Some config) ''miniapp'' of
             Inl e \<Rightarrow> Inl e
           | Inr miniapp \<Rightarrow>
               if truthyV miniapp \<and> iconFilename \<noteq> [] then
                 setMiniappProp config ''iconUrl'' (JStr (domain @ ''/images/'' @ iconFilename))
               else Inr config))"

definition updateFarcasterConfigWithIcon_try :: "string \<Rightarrow> world \<Rightarrow> unit io" where
  "updateFarcasterConfigWithIcon_try iconFilename w =
     (if manifestFile w = Absent then
        (Inr (), logLines [Warn ''Warning: farcaster.json file not found, skipping update''] w)
      else case parseManifest w of
             Inl e \<Rightarrow> (Inl e, w)
           | Inr config \<Rightarrow>
               (case patchIcon iconFilename config w of
                  Inl e \<Rightarrow> (Inl e, w)
                | Inr config' \<Rightarrow> writeManifest config' w))"

definition updateFarcasterConfigWithIcon :: "string \<Rightarrow> world \<Rightarrow> unit io" where
  "updateFarcasterConfigWithIcon iconFilename w =
     (case updateFarcasterConfigWithIcon_try iconFilename w of
        (Inl e, w') \<Rightarrow> (Inr (), logLines [ErrWith ''Error updating farcaster.json:'' e] w')
      | (Inr u, w') \<Rightarrow> (Inr (), w'))"

subsection \<open>\<open>main\<close>\<close>

text \<open>
  \<open>argv2\<close> is \<open>process.argv[2]\<close>. After the prompt is chosen, the line
  \<open>App: ${appName}\<close> converts \<open>appName\<close> to a string once more, also when
  the prompt came from the command line.
\<close>

definition main_steps :: "string option \<Rightarrow> string \<Rightarrow> world \<Rightarrow> unit io" where
  "main_steps argv2 now w =
     (case getAppNameFromConfig w of
        (appName, w1) \<Rightarrow>
          (let customPrompt = argv2
           in case (if truthyS customPrompt then Inr (templ customPrompt)
                    else generateIconPrompt appName) of
                Inl e \<Rightarrow> (Inl e, w1)
              | Inr prompt \<Rightarrow>
                  (case toStringJS appName of
                     Inl e \<Rightarrow> (Inl e, w1)
                   | Inr shown \<Rightarrow>
                       (let w2 = clearExistingIcons w1
                        in case generateIcon prompt (Some ICON_DIMENSIONS) now w2 of
                             (Inl e, w3) \<Rightarrow> (Inl e, w3)
                           | (Inr iconFilename, w3) \<Rightarrow>
                               updateFarcasterConfigWithIcon iconFilename w3))))"

definition main :: "string option \<Rightarrow> string \<Rightarrow> world \<Rightarrow> outcome \<times> world" where
  "main argv2 now w =
     (let apiKey = env w ''TOGETHER_API_KEY''
      in if \<not> truthyS apiKey then
           (Exit 1, logLines [Err ''Error: TOGETHER_API_KEY is not set.'',
                              Err ''   Please add your Together AI API key to your .env file.'',
                              Err ''   Get your API key from: https://api.together.xyz/settings/api-keys''] w)
         else (case main_steps argv2 now w of
                 (Inl e, w') \<Rightarrow>
                   (Exit 1,
                    logLines ([Err ''Error generating icon:'', ErrWith [] e]
                              @ (if includesStr (message e) ''429'' \<or> includesStr (message e) ''rate limit''
                                 then [Err ''Rate Limit: Please wait before making another request'']
                                 else [])) w')
               | (Inr u, w') \<Rightarrow> (Returns, w')))"

section \<open>Reading a manifest\<close>

text \<open>
  The words of the specification about a manifest: its top-level fields, the fields of
  its \<open>miniapp\<close> object, and whether it has such an object.
\<close>

definition topField :: "json \<Rightarrow> string \<Rightarrow> json option" where
  "topField config k = (case config of JObj kvs \<Rightarrow> map_of kvs k | _ \<Rightarrow> None)"

definition miniappField :: "json \<Rightarrow> string \<Rightarrow> json option" where
  "miniappField config k =
     (case topField config ''miniapp'' of Some (JObj m) \<Rightarrow> map_of m k | _ \<Rightarrow> None)"

definition hasMiniappObject :: "json \<Rightarrow> bool" where
  "hasMiniappObject config =
     (case topField config ''miniapp'' of Some (JObj m) \<Rightarrow> True | _ \<Rightarrow> False)"

text \<open>
  \<open>frame S c c'\<close>: from \<open>c\<close> to \<open>c'\<close> nothing changes but fields of the
  \<open>miniapp\<close> object whose names are in \<open>S\<close>.
\<close>

definition frame :: "string set \<Rightarrow> json \<Rightarrow> json \<Rightarrow> bool" where
  "frame S c c' \<longleftrightarrow>
     (\<forall>k. k \<noteq> ''miniapp'' \<longrightarrow> topField c' k = topField c k)
     \<and> (\<forall>k. k \<notin> S \<longrightarrow> miniappField c' k = miniappField c k)
     \<and> hasMiniappObject c' = hasMiniappObject c
     \<and> (\<not> hasMiniappObject c \<longrightarrow> c' = c)"

text \<open>
  A world to build examples from: no environment variable, no images directory, no
  manifest, the network down.
\<close>

definition emptyWorld :: world where
  "emptyWorld =
     \<lparr>env = Map.empty, imagesDir = None, imagesWriteErr = None, manifestFile = Absent,
      manifestWriteErr = None, urlOrigin = Map.empty, fetchReplies = [],
      togetherReply = ApiRejects ''fetch failed'', requests = [], stderr = []\<rparr>"

section \<open>Properties of \<open>ensureProtocol\<close>\<close>

lemma toUpperCase_h: "toUpperCase x = CHR ''H'' \<longleftrightarrow> toLowerCase x = CHR ''h''"
  by (simp add: toUpperCase_def toLowerCase_def upperTable_def lowerTable_def)

lemma toUpperCase_t: "toUpperCase x = CHR ''T'' \<longleftrightarrow> toLowerCase x = CHR ''t''"
  by (simp add: toUpperCase_def toLowerCase_def upperTable_def lowerTable_def)

lemma toUpperCase_p: "toUpperCase x = CHR ''P'' \<longleftrightarrow> toLowerCase x = CHR ''p''"
  by (simp add: toUpperCase_def toLowerCase_def upperTable_def lowerTable_def)

lemma toUpperCase_s: "toUpperCase x = CHR ''S'' \<longleftrightarrow> toLowerCase x = CHR ''s''"
  by (simp add: toUpperCase_def toLowerCase_def upperTable_def lowerTable_def)

lemma toUpperCase_colon: "toUpperCase x = CHR '':'' \<longleftrightarrow> toLowerCase x = CHR '':''"
  by (simp add: toUpperCase_def toLowerCase_def upperTable_def lowerTable_def)

lemma toUpperCase_slash: "toUpperCase x = CHR ''/'' \<longleftrightarrow> toLowerCase x = CHR ''/''"
  by (simp add: toUpperCase_def toLowerCase_def upperTable_def lowerTable_def)

lemma toUpperCase_pattern_chars:
  "toUpperCase CHR ''h'' = CHR ''H''" "toUpperCase CHR ''t'' = CHR ''T''"
  "toUpperCase CHR ''p'' = CHR ''P''" "toUpperCase CHR ''s'' = CHR ''S''"
  "toUpperCase CHR '':'' = CHR '':''" "toUpperCase CHR ''/'' = CHR ''/''"
  by (simp_all add: toUpperCase_def upperTable_def)

lemmas canon_simps =
  toUpperCase_pattern_chars toUpperCase_h toUpperCase_t toUpperCase_p toUpperCase_s
  toUpperCase_colon toUpperCase_slash

text \<open>The regular expression accepts exactly the inputs the specification describes.\<close>

lemma httpPattern_test:
  "matchAt httpPattern u \<longleftrightarrow> beginsWithAnyCase ''http://'' u \<or> beginsWithAnyCase ''https://'' u"
  by (auto simp: httpPattern_def beginsWithAnyCase_def canon_simps split: list.splits)

lemma httpPattern_https: "matchAt httpPattern (''https://'' @ u)"
  by (simp add: httpPattern_def toUpperCase_pattern_chars)

text \<open>
  Claim C10. For every string \<open>u\<close>, \<open>ensureProtocol u\<close> is \<open>u\<close> itself when \<open>u\<close>
  begins with \<open>http://\<close> or \<open>https://\<close> in any letter case, and \<open>https://\<close>
  followed by \<open>u\<close> otherwise; applying \<open>ensureProtocol\<close> twice gives the same as
  applying it once.
\<close>

theorem ensureProtocol_spec:
  "ensureProtocol u =
     (if beginsWithAnyCase ''http://'' u \<or> beginsWithAnyCase ''https://'' u then u
      else ''https://'' @ u)
   \<and> ensureProtocol (ensureProtocol u) = ensureProtocol u"
proof -
  have first: "ensureProtocol u =
     (if beginsWithAnyCase ''http://'' u \<or> beginsWithAnyCase ''https://'' u then u
      else ''https://'' @ u)"
    by (simp add: ensureProtocol_def httpPattern_test)
  have "ensureProtocol (ensureProtocol u) = ensureProtocol u"
  proof (cases "matchAt httpPattern u")
    case True
    then show ?thesis by (simp add: ensureProtocol_def)
  next
    case False
    then have "ensureProtocol u = ''https://'' @ u" by (simp add: ensureProtocol_def)
    moreover have "ensureProtocol (''https://'' @ u) = ''https://'' @ u"
      using httpPattern_https [of u]
      by (simp only: ensureProtocol_def if_False not_True_eq_False simp_thms)
    ultimately show ?thesis by simp
  qed
  with first show ?thesis by blast
qed

text \<open>An upper-case \<open>HTTP://\<close> is kept; a bare host gets \<open>https://\<close>.\<close>

theorem ensureProtocol_spec_witness:
  "ensureProtocol ''HTTP://Example.com'' = ''HTTP://Example.com''
   \<and> ensureProtocol ''example.com'' = ''https://example.com''
   \<and> ensureProtocol (ensureProtocol ''example.com'') = ensureProtocol ''example.com''"
  using ensureProtocol_spec [of "''HTTP://Example.com''"]
    ensureProtocol_spec [of "''example.com''"]
    ensureProtocol_spec [of "''https://example.com''"]
  by (simp add: beginsWithAnyCase_def toLowerCase_def lowerTable_def)

section \<open>Properties of \<open>generateFilename\<close>\<close>

lemma replaceColonDot_length: "length (replaceColonDot s) = length s"
  by (simp add: replaceColonDot_def)

lemma replaceColonDot_nth:
  "i < length s \<Longrightarrow>
   replaceColonDot s ! i = (if s ! i = CHR '':'' \<or> s ! i = CHR ''.'' then CHR ''-'' else s ! i)"
  by (simp add: replaceColonDot_def)

text \<open>
  Claim C9. For every type and prefix, \<open>generateFilename\<close> of either script returns
  prefix, dash, type, dash, timestamp and \<open>.png\<close>, where the timestamp is the ISO
  reading of the clock with every colon and every dot replaced by a dash and every other
  character kept. The result starts with prefix-type- and ends with \<open>.png\<close>. The
  prefix left out is \<open>screenshot\<close> in the screenshot script and \<open>flux\<close> in the
  icon script.
\<close>

theorem generateFilename_spec:
  "generateFilename ty (Some pre) now = pre @ ''-'' @ ty @ ''-'' @ replaceColonDot now @ ''.png''
   \<and> generateFilename_flux ty (Some pre) now
       = pre @ ''-'' @ ty @ ''-'' @ replaceColonDot now @ ''.png''
   \<and> length (replaceColonDot now) = length now
   \<and> (\<forall>i < length now.
         replaceColonDot now ! i
           = (if now ! i = CHR '':'' \<or> now ! i = CHR ''.'' then CHR ''-'' else now ! i))
   \<and> startsWith (generateFilename ty (Some pre) now) (pre @ ''-'' @ ty @ ''-'')
   \<and> endsWith (generateFilename ty (Some pre) now) ''.png''
   \<and> startsWith (generateFilename_flux ty (Some pre) now) (pre @ ''-'' @ ty @ ''-'')
   \<and> endsWith (generateFilename_flux ty (Some pre) now) ''.png''
   \<and> generateFilename ty None now = generateFilename ty (Some ''screenshot'') now
   \<and> generateFilename_flux ty None now = generateFilename_flux ty (Some ''flux'') now"
  by (simp add: generateFilename_def generateFilename_flux_def replaceColonDot_length
      replaceColonDot_nth startsWith_def endsWith_def suffix_def)

theorem generateFilename_spec_witness:
  "generateFilename ''embed'' None ''2024-01-15T10:30:45.123Z''
     = ''screenshot-embed-2024-01-15T10-30-45-123Z.png''
   \<and> generateFilename_flux ''icon'' None ''2024-01-15T10:30:45.123Z''
     = ''flux-icon-2024-01-15T10-30-45-123Z.png''
   \<and> replaceColonDot ''2024-01-15T10:30:45.123Z'' ! 13 = CHR ''-''
   \<and> replaceColonDot ''2024-01-15T10:30:45.123Z'' ! 10 = CHR ''T''"
  using generateFilename_spec [of "''embed''" "''screenshot''" "''2024-01-15T10:30:45.123Z''"]
    generateFilename_spec [of "''icon''" "''flux''" "''2024-01-15T10:30:45.123Z''"]
  by (simp add: replaceColonDot_def)

section \<open>The environment check of \<open>generateScreenshots\<close>\<close>

text \<open>
  Claim C4. If \<open>SCREENSHOT_URL\<close> or \<open>BROWSERLESS_API_URL\<close> is unset,
  \<open>generateScreenshots\<close> exits with code 1, and up to then no request has been
  issued, no reply of the network consumed, and neither the images directory nor the
  manifest touched.
\<close>

theorem generateScreenshots_env_unset:
  assumes "env w ''SCREENSHOT_URL'' = None \<or> env w ''BROWSERLESS_API_URL'' = None"
  shows "fst (generateScreenshots nowEmbed nowSplash w) = Exit 1
         \<and> requests (snd (generateScreenshots nowEmbed nowSplash w)) = requests w
         \<and> fetchReplies (snd (generateScreenshots nowEmbed nowSplash w)) = fetchReplies w
         \<and> imagesDir (snd (generateScreenshots nowEmbed nowSplash w)) = imagesDir w
         \<and> manifestFile (snd (generateScreenshots nowEmbed nowSplash w)) = manifestFile w"
  using assms
  by (auto simp: generateScreenshots_def Let_def truthyS_def baseUrl_def logLines_def)

theorem generateScreenshots_env_unset_witness:
  "fst (generateScreenshots ''t1'' ''t2''
          (emptyWorld\<lparr>env := [''SCREENSHOT_URL'' \<mapsto> ''app.example''],
                      fetchReplies := [FetchRejects ''down'']\<rparr>)) = Exit 1
   \<and> requests (snd (generateScreenshots ''t1'' ''t2''
          (emptyWorld\<lparr>env := [''SCREENSHOT_URL'' \<mapsto> ''app.example''],
                      fetchReplies := [FetchRejects ''down'']\<rparr>))) = []
   \<and> fst (generateScreenshots ''t1'' ''t2''
          (emptyWorld\<lparr>env := [''BROWSERLESS_API_URL'' \<mapsto> ''https://b.example'']\<rparr>)) = Exit 1"
  using generateScreenshots_env_unset
      [of "emptyWorld\<lparr>env := [''SCREENSHOT_URL'' \<mapsto> ''app.example''],
                      fetchReplies := [FetchRejects ''down'']\<rparr>" "''t1''" "''t2''"]
    generateScreenshots_env_unset
      [of "emptyWorld\<lparr>env := [''BROWSERLESS_API_URL'' \<mapsto> ''https://b.example'']\<rparr>" "''t1''" "''t2''"]
  by (simp add: emptyWorld_def)

lemma clearExistingScreenshots_requests [simp]:
  "requests (clearExistingScreenshots w) = requests w"
  by (simp add: clearExistingScreenshots_def Let_def split: option.splits prod.splits)

lemma generateSingleScreenshot_requests:
  "length (requests (snd (generateSingleScreenshot url vp ty now w))) = Suc (length (requests w))"
  by (simp add: generateSingleScreenshot_def takeScreenshot_def takeScreenshot_try_def Let_def
      fetch_def logLines_def writeImage_def
      split: prod.splits sum.splits list.splits fetch_reply.splits option.splits)

lemma updateFarcasterConfig_requests [simp]:
  "requests (snd (updateFarcasterConfig domain names w)) = requests w"
  by (simp add: updateFarcasterConfig_def updateFarcasterConfig_try_def writeManifest_def
      logLines_def split: prod.splits sum.splits option.splits)

lemma generateScreenshots_steps_requests:
  "length (requests w)
     < length (requests (snd (generateScreenshots_steps appDomain nowEmbed nowSplash w)))"
proof -
  let ?w1 = "clearExistingScreenshots w"
  let ?r1 = "generateSingleScreenshot appDomain embedViewport ''embed'' nowEmbed ?w1"
  have one: "length (requests (snd ?r1)) = Suc (length (requests w))"
    by (simp add: generateSingleScreenshot_requests)
  show ?thesis
  proof (cases "fst ?r1")
    case (Inl e)
    then have "generateScreenshots_steps appDomain nowEmbed nowSplash w = (Inl e, snd ?r1)"
      by (auto simp: generateScreenshots_steps_def Let_def split: prod.splits)
    with one show ?thesis by simp
  next
    case (Inr embedResult)
    let ?r2 = "generateSingleScreenshot appDomain splashViewport ''splash'' nowSplash (snd ?r1)"
    have two: "length (requests (snd ?r2)) = Suc (Suc (length (requests w)))"
      by (simp add: generateSingleScreenshot_requests one)
    show ?thesis
    proof (cases "fst ?r2")
      case (Inl e)
      with Inr have "generateScreenshots_steps appDomain nowEmbed nowSplash w = (Inl e, snd ?r2)"
        by (auto simp: generateScreenshots_steps_def Let_def split: prod.splits)
      with two show ?thesis by simp
    next
      case inr2: (Inr splashResult)
      with Inr have "generateScreenshots_steps appDomain nowEmbed nowSplash w
          = updateFarcasterConfig (env (snd ?r2) ''NEXT_PUBLIC_APP_DOMAIN'')
              \<lparr>embed = Some embedResult, splash = Some splashResult\<rparr> (snd ?r2)"
        by (auto simp: generateScreenshots_steps_def Let_def split: prod.splits)
      with two show ?thesis by simp
    qed
  qed
qed

text \<open>When both variables are set, the run does reach the network.\<close>

lemma generateScreenshots_requests:
  assumes "truthyS (env w ''SCREENSHOT_URL'')" "truthyS (env w ''BROWSERLESS_API_URL'')"
  shows "length (requests w) < length (requests (snd (generateScreenshots nowEmbed nowSplash w)))"
  using assms generateScreenshots_steps_requests
    [of w "templ (env w ''SCREENSHOT_URL'')" nowEmbed nowSplash]
  by (auto simp: generateScreenshots_def Let_def baseUrl_def logLines_def split: prod.splits sum.splits)


section \<open>The manifest patchers swallow their errors\<close>

lemma updateFarcasterConfig_returns: "fst (updateFarcasterConfig domain names w) = Inr ()"
  by (simp add: updateFarcasterConfig_def split: prod.splits sum.splits)

lemma updateFarcasterConfigWithIcon_returns:
  "fst (updateFarcasterConfigWithIcon iconFilename w) = Inr ()"
  by (simp add: updateFarcasterConfigWithIcon_def split: prod.splits sum.splits)

text \<open>
  Claim C8. Neither manifest patcher raises. When the manifest is absent the patcher
  logs a warning and leaves the world as it was. When reading, parsing or writing the
  manifest fails, the patcher logs the error and leaves the world as it was. The
  generators do raise: \<open>generateIcon\<close> when the image service rejects the call,
  \<open>takeScreenshot\<close> and \<open>generateSingleScreenshot\<close> when \<open>fetch\<close> rejects.
\<close>

theorem patchers_swallow_errors:
  "fst (updateFarcasterConfig domain names w) = Inr ()
   \<and> fst (updateFarcasterConfigWithIcon iconFilename w) = Inr ()
   \<and> (manifestFile w = Absent \<longrightarrow>
        snd (updateFarcasterConfig domain names w)
          = w\<lparr>stderr := stderr w @ [Warn ''Warning: farcaster.json file not found, skipping update'']\<rparr>
        \<and> snd (updateFarcasterConfigWithIcon iconFilename w)
          = w\<lparr>stderr := stderr w @ [Warn ''Warning: farcaster.json file not found, skipping update'']\<rparr>)
   \<and> (manifestFile w = Unreadable msg \<longrightarrow>
        snd (updateFarcasterConfig domain names w)
          = w\<lparr>stderr := stderr w @ [ErrWith ''Error updating farcaster.json:'' (Error msg)]\<rparr>
        \<and> snd (updateFarcasterConfigWithIcon iconFilename w)
          = w\<lparr>stderr := stderr w @ [ErrWith ''Error updating farcaster.json:'' (Error msg)]\<rparr>)
   \<and> (manifestFile w = Malformed msg \<longrightarrow>
        snd (updateFarcasterConfig domain names w)
          = w\<lparr>stderr := stderr w @ [ErrWith ''Error updating farcaster.json:'' (SyntaxError msg)]\<rparr>
        \<and> snd (updateFarcasterConfigWithIcon iconFilename w)
          = w\<lparr>stderr := stderr w @ [ErrWith ''Error updating farcaster.json:'' (SyntaxError msg)]\<rparr>)
   \<and> (manifestFile w = Json config \<and> manifestWriteErr w = Some msg \<longrightarrow>
        (\<exists>e. snd (updateFarcasterConfig domain names w)
               = w\<lparr>stderr := stderr w @ [ErrWith ''Error updating farcaster.json:'' e]\<rparr>)
        \<and> (\<exists>e. snd (updateFarcasterConfigWithIcon iconFilename w)
               = w\<lparr>stderr := stderr w @ [ErrWith ''Error updating farcaster.json:'' e]\<rparr>))
   \<and> (togetherReply w = ApiRejects msg \<longrightarrow>
        fst (generateIcon prompt dimensions now w) = Inl (Error msg))
   \<and> (fetchReplies w = FetchRejects msg # rs \<longrightarrow>
        fst (takeScreenshot url vp filename w) = Inl (Error msg)
        \<and> fst (generateSingleScreenshot url vp ty now w) = Inl (Error msg))"
proof -
  have wr1: "manifestFile w = Json config \<and> manifestWriteErr w = Some msg \<longrightarrow>
        (\<exists>e. snd (updateFarcasterConfig domain names w)
               = w\<lparr>stderr := stderr w @ [ErrWith ''Error updating farcaster.json:'' e]\<rparr>)"
    by (auto simp: updateFarcasterConfig_def updateFarcasterConfig_try_def writeManifest_def
        parseManifest_def logLines_def split: sum.splits)
  have wr2: "manifestFile w = Json config \<and> manifestWriteErr w = Some msg \<longrightarrow>
        (\<exists>e. snd (updateFarcasterConfigWithIcon iconFilename w)
               = w\<lparr>stderr := stderr w @ [ErrWith ''Error updating farcaster.json:'' e]\<rparr>)"
    by (auto simp: updateFarcasterConfigWithIcon_def updateFarcasterConfigWithIcon_try_def
        writeManifest_def parseManifest_def logLines_def split: sum.splits)
  have gen: "togetherReply w = ApiRejects msg \<longrightarrow>
        fst (generateIcon prompt dimensions now w) = Inl (Error msg)"
    by (simp add: generateIcon_def generateIcon_try_def Let_def)
  have shot: "fetchReplies w = FetchRejects msg # rs \<longrightarrow>
        fst (takeScreenshot url vp filename w) = Inl (Error msg)
        \<and> fst (generateSingleScreenshot url vp ty now w) = Inl (Error msg)"
    by (simp add: generateSingleScreenshot_def takeScreenshot_def takeScreenshot_try_def
        Let_def fetch_def)
  have rest: "(manifestFile w = Absent \<longrightarrow>
        snd (updateFarcasterConfig domain names w)
          = w\<lparr>stderr := stderr w @ [Warn ''Warning: farcaster.json file not found, skipping update'']\<rparr>
        \<and> snd (updateFarcasterConfigWithIcon iconFilename w)
          = w\<lparr>stderr := stderr w @ [Warn ''Warning: farcaster.json file not found, skipping update'']\<rparr>)
   \<and> (manifestFile w = Unreadable msg \<longrightarrow>
        snd (updateFarcasterConfig domain names w)
          = w\<lparr>stderr := stderr w @ [ErrWith ''Error updating farcaster.json:'' (Error msg)]\<rparr>
        \<and> snd (updateFarcasterConfigWithIcon iconFilename w)
          = w\<lparr>stderr := stderr w @ [ErrWith ''Error updating farcaster.json:'' (Error msg)]\<rparr>)
   \<and> (manifestFile w = Malformed msg \<longrightarrow>
        snd (updateFarcasterConfig domain names w)
          = w\<lparr>stderr := stderr w @ [ErrWith ''Error updating farcaster.json:'' (SyntaxError msg)]\<rparr>
        \<and> snd (updateFarcasterConfigWithIcon iconFilename w)
          = w\<lparr>stderr := stderr w @ [ErrWith ''Error updating farcaster.json:'' (SyntaxError msg)]\<rparr>)"
    by (simp add: updateFarcasterConfig_def updateFarcasterConfig_try_def
        updateFarcasterConfigWithIcon_def updateFarcasterConfigWithIcon_try_def
        parseManifest_def logLines_def)
  from updateFarcasterConfig_returns updateFarcasterConfigWithIcon_returns wr1 wr2 gen shot rest
  show ?thesis by blast
qed


theorem patchers_swallow_errors_witness:
  "snd (updateFarcasterConfig (Some ''app.example'')
          \<lparr>embed = Some ''e.png'', splash = Some ''s.png''\<rparr> emptyWorld)
     = emptyWorld\<lparr>stderr := [Warn ''Warning: farcaster.json file not found, skipping update'']\<rparr>
   \<and> fst (updateFarcasterConfigWithIcon ''i.png''
          (emptyWorld\<lparr>manifestFile := Malformed ''Unexpected end of JSON input''\<rparr>)) = Inr ()
   \<and> snd (updateFarcasterConfigWithIcon ''i.png''
          (emptyWorld\<lparr>manifestFile := Malformed ''Unexpected end of JSON input''\<rparr>))
     = emptyWorld\<lparr>manifestFile := Malformed ''Unexpected end of JSON input'',
         stderr := [ErrWith ''Error updating farcaster.json:''
                      (SyntaxError ''Unexpected end of JSON input'')]\<rparr>
   \<and> snd (updateFarcasterConfig None \<lparr>embed = None, splash = None\<rparr>
          (emptyWorld\<lparr>manifestFile := Unreadable ''EACCES: permission denied''\<rparr>))
     = emptyWorld\<lparr>manifestFile := Unreadable ''EACCES: permission denied'',
         stderr := [ErrWith ''Error updating farcaster.json:''
                      (Error ''EACCES: permission denied'')]\<rparr>
   \<and> (\<exists>e. snd (updateFarcasterConfigWithIcon ''i.png''
          (emptyWorld\<lparr>manifestFile := Json (JObj []),
             manifestWriteErr := Some ''EROFS: read-only file system''\<rparr>))
     = emptyWorld\<lparr>manifestFile := Json (JObj []),
         manifestWriteErr := Some ''EROFS: read-only file system'',
         stderr := [ErrWith ''Error updating farcaster.json:'' e]\<rparr>)
   \<and> fst (generateIcon ''an icon'' None ''2024-01-15T10:30:45.123Z''
          (emptyWorld\<lparr>togetherReply := ApiRejects ''401 Unauthorized''\<rparr>))
     = Inl (Error ''401 Unauthorized'')
   \<and> fst (takeScreenshot ''app.example'' embedViewport ''shot.png''
          (emptyWorld\<lparr>fetchReplies := [FetchRejects ''ECONNREFUSED'']\<rparr>))
     = Inl (Error ''ECONNREFUSED'')"
  using patchers_swallow_errors
      [where w = emptyWorld and domain = "Some ''app.example''"
         and names = "\<lparr>embed = Some ''e.png'', splash = Some ''s.png''\<rparr>"]
    patchers_swallow_errors
      [where w = "emptyWorld\<lparr>manifestFile := Malformed ''Unexpected end of JSON input''\<rparr>"
         and iconFilename = "''i.png''" and msg = "''Unexpected end of JSON input''"]
    patchers_swallow_errors
      [where w = "emptyWorld\<lparr>manifestFile := Unreadable ''EACCES: permission denied''\<rparr>"
         and domain = None and names = "\<lparr>embed = None, splash = None\<rparr>"
         and msg = "''EACCES: permission denied''"]
    patchers_swallow_errors
      [where w = "emptyWorld\<lparr>manifestFile := Json (JObj []),
             manifestWriteErr := Some ''EROFS: read-only file system''\<rparr>"
         and iconFilename = "''i.png''" and config = "JObj []"
         and msg = "''EROFS: read-only file system''"]
    patchers_swallow_errors
      [where w = "emptyWorld\<lparr>togetherReply := ApiRejects ''401 Unauthorized''\<rparr>"
         and msg = "''401 Unauthorized''" and prompt = "''an icon''" and dimensions = None
         and now = "''2024-01-15T10:30:45.123Z''"]
    patchers_swallow_errors
      [where w = "emptyWorld\<lparr>fetchReplies := [FetchRejects ''ECONNREFUSED'']\<rparr>"
         and msg = "''ECONNREFUSED''" and rs = "[]" and url = "''app.example''"
         and vp = embedViewport and filename = "''shot.png''"]
  by (simp add: emptyWorld_def)

section \<open>What a manifest patch leaves alone\<close>

lemma frame_refl: "frame S c c"
  by (simp add: frame_def)

lemma frame_trans: "frame S c c' \<Longrightarrow> frame T c' c'' \<Longrightarrow> frame (S \<union> T) c c''"
  by (auto simp: frame_def)

lemma frame_mono: "frame S c c' \<Longrightarrow> S \<subseteq> T \<Longrightarrow> frame T c c'"
  by (auto simp: frame_def)

lemma setMiniappProp_frame:
  assumes "setMiniappProp c k x = Inr c'"
  shows "frame {k} c c'"
proof (cases c)
  case (JObj kvs)
  show ?thesis
  proof (cases "map_of kvs ''miniapp''")
    case None
    with JObj assms show ?thesis by (simp add: setMiniappProp_def)
  next
    case (Some m)
    show ?thesis
    proof (cases m)
      case (JObj mk)
      with Some \<open>c = JObj kvs\<close> assms
      have "c' = JObj (AList.update ''miniapp'' (JObj (AList.update k x mk)) kvs)"
        by (auto simp: setMiniappProp_def withMiniapp_def)
      with JObj Some \<open>c = JObj kvs\<close> show ?thesis
        by (simp add: frame_def topField_def miniappField_def hasMiniappObject_def update_conv')
    next
      case (JArr xs)
      with Some \<open>c = JObj kvs\<close> assms
      have "c' = JObj (AList.update ''miniapp'' m kvs)"
        by (auto simp: setMiniappProp_def withMiniapp_def)
      with Some \<open>c = JObj kvs\<close> have "c' = c" by (simp add: update_triv)
      then show ?thesis by (simp add: frame_refl)
    qed (use Some \<open>c = JObj kvs\<close> assms in \<open>simp_all add: setMiniappProp_def\<close>)
  qed
qed (use assms in \<open>simp_all add: setMiniappProp_def\<close>)

lemma frame_step:
  "frame S a b \<Longrightarrow> setMiniappProp b k x = Inr d \<Longrightarrow> k \<in> S \<Longrightarrow> frame S a d"
  using frame_trans [of S a b "{k}" d] setMiniappProp_frame [of b k x d]
  by (simp add: insert_absorb)

lemma patchScreenshots_frame:
  assumes "patchScreenshots domain names c = Inr c'"
  shows "frame {''imageUrl'', ''splashImageUrl'', ''homeUrl'', ''webhookUrl''} c c'"
proof -
  let ?S = "{''imageUrl'', ''splashImageUrl'', ''homeUrl'', ''webhookUrl''}"
  have i: "''imageUrl'' \<in> ?S" and s: "''splashImageUrl'' \<in> ?S"
    and h: "''homeUrl'' \<in> ?S" and wh: "''webhookUrl'' \<in> ?S" by simp_all
  note steps = frame_step [OF _ _ i] frame_step [OF _ _ s] frame_step [OF _ _ h]
    frame_step [OF _ _ wh]
  from assms show ?thesis
    unfolding patchScreenshots_def Let_def
    by (auto split: sum.splits if_splits dest!: setMiniappProp_frame simp: frame_def)
qed

lemma patchIcon_frame:
  assumes "patchIcon iconFilename c w = Inr c'"
  shows "frame {''iconUrl''} c c'"
  using assms
  by (auto simp: patchIcon_def split: sum.splits if_splits intro: setMiniappProp_frame frame_refl)


lemma map_of_stringified:
  "map_of (map (map_prod id f) kvs) k = map_option f (map_of kvs k)"
  by (induction kvs) auto

lemma map_fixed: "map f xs = xs \<longleftrightarrow> (\<forall>x \<in> set xs. f x = x)"
  using map_eq_conv [of f xs id] by simp

lemma stringified_id: "stringified v = v \<longleftrightarrow> allFinite v"
proof (induction v)
  case (JArr xs)
  then show ?case by (simp add: map_fixed)
next
  case (JObj kvs)
  have "map_prod id stringified p = p \<longleftrightarrow> allFinite (snd p)" if "p \<in> set kvs" for p
    using JObj [of p "snd p"] that by (cases p) auto
  then show ?case by (simp add: map_fixed)
qed simp_all

lemma topField_stringified:
  "topField (stringified c) k = map_option stringified (topField c k)"
  by (cases c) (simp_all add: topField_def map_of_stringified)

lemma miniappField_stringified:
  "miniappField (stringified c) k = map_option stringified (miniappField c k)"
proof (cases "topField c ''miniapp''")
  case None
  then show ?thesis by (simp add: miniappField_def topField_stringified)
next
  case (Some m)
  then show ?thesis
    by (cases m) (simp_all add: miniappField_def topField_stringified map_of_stringified)
qed

lemma hasMiniappObject_stringified: "hasMiniappObject (stringified c) = hasMiniappObject c"
proof (cases "topField c ''miniapp''")
  case None
  then show ?thesis by (simp add: hasMiniappObject_def topField_stringified)
next
  case (Some m)
  then show ?thesis by (cases m) (simp_all add: hasMiniappObject_def topField_stringified)
qed

lemma updateFarcasterConfig_manifest:
  assumes "manifestFile w = Json config"
  shows "manifestFile (snd (updateFarcasterConfig domain names w))
           = (case patchScreenshots domain names config of
                Inl e \<Rightarrow> Json config
              | Inr config' \<Rightarrow>
                  if manifestWriteErr w = None then Json (stringified config') else Json config)"
  using assms
  by (auto simp: updateFarcasterConfig_def updateFarcasterConfig_try_def parseManifest_def
      writeManifest_def logLines_def split: sum.splits option.splits)

lemma updateFarcasterConfigWithIcon_manifest:
  assumes "manifestFile w = Json config"
  shows "manifestFile (snd (updateFarcasterConfigWithIcon iconFilename w))
           = (case patchIcon iconFilename config w of
                Inl e \<Rightarrow> Json config
              | Inr config' \<Rightarrow>
                  if manifestWriteErr w = None then Json (stringified config') else Json config)"
  using assms
  by (auto simp: updateFarcasterConfigWithIcon_def updateFarcasterConfigWithIcon_try_def
      parseManifest_def writeManifest_def logLines_def split: sum.splits option.splits)

lemma updateFarcasterConfig_not_json:
  assumes "\<forall>config. manifestFile w \<noteq> Json config"
  shows "manifestFile (snd (updateFarcasterConfig domain names w)) = manifestFile w"
  using assms
  by (cases "manifestFile w")
    (auto simp: updateFarcasterConfig_def updateFarcasterConfig_try_def parseManifest_def
      logLines_def)

lemma updateFarcasterConfigWithIcon_not_json:
  assumes "\<forall>config. manifestFile w \<noteq> Json config"
  shows "manifestFile (snd (updateFarcasterConfigWithIcon iconFilename w)) = manifestFile w"
  using assms
  by (cases "manifestFile w")
    (auto simp: updateFarcasterConfigWithIcon_def updateFarcasterConfigWithIcon_try_def
      parseManifest_def logLines_def)

text \<open>
  What is written after a patch that changed at most the fields \<open>S\<close> of the
  \<open>miniapp\<close> object.
\<close>

lemma frame_written:
  assumes "frame S config c'" "S \<subseteq> T"
  shows "(\<forall>k. k \<noteq> ''miniapp'' \<longrightarrow>
            topField (stringified c') k = map_option stringified (topField config k))
         \<and> (\<forall>k. k \<notin> T \<longrightarrow>
            miniappField (stringified c') k = map_option stringified (miniappField config k))
         \<and> (\<not> hasMiniappObject config \<longrightarrow> stringified c' = stringified config)"
  using assms by (auto simp: frame_def topField_stringified miniappField_stringified)

lemma updateFarcasterConfig_frame:
  assumes m: "manifestFile w = Json config"
  shows "manifestFile (snd (updateFarcasterConfig domain names w)) = Json config
     \<or> (\<exists>config'. manifestFile (snd (updateFarcasterConfig domain names w)) = Json config'
         \<and> (\<forall>k. k \<noteq> ''miniapp'' \<longrightarrow>
               topField config' k = map_option stringified (topField config k))
         \<and> (\<forall>k. k \<notin> {''imageUrl'', ''splashImageUrl'', ''iconUrl'', ''homeUrl'', ''webhookUrl''}
                \<longrightarrow> miniappField config' k = map_option stringified (miniappField config k))
         \<and> (\<not> hasMiniappObject config \<longrightarrow> config' = stringified config))"
proof (cases "patchScreenshots domain names config")
  case (Inl e)
  with m show ?thesis by (simp add: updateFarcasterConfig_manifest)
next
  case (Inr c')
  have sub: "{''imageUrl'', ''splashImageUrl'', ''homeUrl'', ''webhookUrl''}
      \<subseteq> {''imageUrl'', ''splashImageUrl'', ''iconUrl'', ''homeUrl'', ''webhookUrl''}"
    by simp
  show ?thesis
  proof (cases "manifestWriteErr w = None")
    case True
    with m Inr have "manifestFile (snd (updateFarcasterConfig domain names w))
        = Json (stringified c')"
      by (simp add: updateFarcasterConfig_manifest)
    with frame_written [OF patchScreenshots_frame [OF Inr] sub] show ?thesis
      by (intro disjI2 exI [of _ "stringified c'"]) simp
  next
    case False
    with m Inr show ?thesis by (auto simp: updateFarcasterConfig_manifest)
  qed
qed

lemma updateFarcasterConfigWithIcon_frame:
  assumes m: "manifestFile w = Json config"
  shows "manifestFile (snd (updateFarcasterConfigWithIcon iconFilename w)) = Json config
     \<or> (\<exists>config'. manifestFile (snd (updateFarcasterConfigWithIcon iconFilename w)) = Json config'
         \<and> (\<forall>k. k \<noteq> ''miniapp'' \<longrightarrow>
               topField config' k = map_option stringified (topField config k))
         \<and> (\<forall>k. k \<notin> {''imageUrl'', ''splashImageUrl'', ''iconUrl'', ''homeUrl'', ''webhookUrl''}
                \<longrightarrow> miniappField config' k = map_option stringified (miniappField config k))
         \<and> (\<not> hasMiniappObject config \<longrightarrow> config' = stringified config))"
proof (cases "patchIcon iconFilename config w")
  case (Inl e)
  with m show ?thesis by (simp add: updateFarcasterConfigWithIcon_manifest)
next
  case (Inr c')
  have sub: "{''iconUrl''}
      \<subseteq> {''imageUrl'', ''splashImageUrl'', ''iconUrl'', ''homeUrl'', ''webhookUrl''}"
    by simp
  show ?thesis
  proof (cases "manifestWriteErr w = None")
    case True
    with m Inr have "manifestFile (snd (updateFarcasterConfigWithIcon iconFilename w))
        = Json (stringified c')"
      by (simp add: updateFarcasterConfigWithIcon_manifest)
    with frame_written [OF patchIcon_frame [OF Inr] sub] show ?thesis
      by (intro disjI2 exI [of _ "stringified c'"]) simp
  next
    case False
    with m Inr show ?thesis by (auto simp: updateFarcasterConfigWithIcon_manifest)
  qed
qed

text \<open>When no number of the manifest is infinite, what is written back is what was read.\<close>

lemma finite_fields_kept:
  assumes "allFinite config"
    "after = Json config
     \<or> (\<exists>config'. after = Json config'
         \<and> (\<forall>k. k \<noteq> ''miniapp'' \<longrightarrow>
               topField config' k = map_option stringified (topField config k))
         \<and> (\<forall>k. k \<notin> T \<longrightarrow> miniappField config' k = map_option stringified (miniappField config k))
         \<and> (\<not> hasMiniappObject config \<longrightarrow> config' = stringified config))"
  shows "\<exists>config'. after = Json config'
         \<and> (\<forall>k. k \<noteq> ''miniapp'' \<longrightarrow> topField config' k = topField config k)
         \<and> (\<forall>k. k \<notin> T \<longrightarrow> miniappField config' k = miniappField config k)
         \<and> (\<not> hasMiniappObject config \<longrightarrow> config' = config)"
proof -
  from assms(1) have s: "stringified config = config" by (simp add: stringified_id)
  have t: "map_option stringified (topField config k) = topField config k" for k
    using topField_stringified [of config k] s by simp
  have f: "map_option stringified (miniappField config k) = miniappField config k" for k
    using miniappField_stringified [of config k] s by simp
  from assms(2) show ?thesis
  proof
    assume "after = Json config"
    then show ?thesis by simp
  next
    assume "\<exists>config'. after = Json config'
         \<and> (\<forall>k. k \<noteq> ''miniapp'' \<longrightarrow>
               topField config' k = map_option stringified (topField config k))
         \<and> (\<forall>k. k \<notin> T \<longrightarrow> miniappField config' k = map_option stringified (miniappField config k))
         \<and> (\<not> hasMiniappObject config \<longrightarrow> config' = stringified config)"
    then show ?thesis by (simp add: s t f)
  qed
qed

text \<open>
  Claim C1, as amended. For every manifest that parses, \<open>updateFarcasterConfig\<close>
  and \<open>updateFarcasterConfigWithIcon\<close> either leave the manifest as it was, or
  write one in which every top-level field other than \<open>miniapp\<close>, and every field
  of the \<open>miniapp\<close> object other than \<open>imageUrl\<close>, \<open>splashImageUrl\<close>,
  \<open>iconUrl\<close>, \<open>homeUrl\<close> and \<open>webhookUrl\<close>, is what
  \<open>JSON.stringify\<close> makes of the value it had, and in which a manifest without
  a \<open>miniapp\<close> object is what \<open>JSON.stringify\<close> makes of the whole. When no
  number of the manifest is infinite or \<open>NaN\<close>, all these fields have the value
  they had, and a manifest without a \<open>miniapp\<close> object is as it was. A manifest
  that does not parse is not touched. \<open>JSON.stringify\<close> keeps a value as it is if
  and only if no number in it is infinite or \<open>NaN\<close>.
\<close>

theorem manifest_patch_frame:
  "(manifestFile w = Json config \<longrightarrow>
      (manifestFile (snd (updateFarcasterConfig domain names w)) = Json config
       \<or> (\<exists>config'. manifestFile (snd (updateFarcasterConfig domain names w)) = Json config'
           \<and> (\<forall>k. k \<noteq> ''miniapp'' \<longrightarrow>
                 topField config' k = map_option stringified (topField config k))
           \<and> (\<forall>k. k \<notin> {''imageUrl'', ''splashImageUrl'', ''iconUrl'', ''homeUrl'', ''webhookUrl''}
                  \<longrightarrow> miniappField config' k = map_option stringified (miniappField config k))
           \<and> (\<not> hasMiniappObject config \<longrightarrow> config' = stringified config)))
      \<and> (manifestFile (snd (updateFarcasterConfigWithIcon iconFilename w)) = Json config
       \<or> (\<exists>config'. manifestFile (snd (updateFarcasterConfigWithIcon iconFilename w)) = Json config'
           \<and> (\<forall>k. k \<noteq> ''miniapp'' \<longrightarrow>
                 topField config' k = map_option stringified (topField config k))
           \<and> (\<forall>k. k \<notin> {''imageUrl'', ''splashImageUrl'', ''iconUrl'', ''homeUrl'', ''webhookUrl''}
                  \<longrightarrow> miniappField config' k = map_option stringified (miniappField config k))
           \<and> (\<not> hasMiniappObject config \<longrightarrow> config' = stringified config))))
   \<and> (manifestFile w = Json config \<and> allFinite config \<longrightarrow>
      (\<exists>config'. manifestFile (snd (updateFarcasterConfig domain names w)) = Json config'
         \<and> (\<forall>k. k \<noteq> ''miniapp'' \<longrightarrow> topField config' k = topField config k)
         \<and> (\<forall>k. k \<notin> {''imageUrl'', ''splashImageUrl'', ''iconUrl'', ''homeUrl'', ''webhookUrl''}
                \<longrightarrow> miniappField config' k = miniappField config k)
         \<and> (\<not> hasMiniappObject config \<longrightarrow> config' = config))
      \<and> (\<exists>config'. manifestFile (snd (updateFarcasterConfigWithIcon iconFilename w)) = Json config'
         \<and> (\<forall>k. k \<noteq> ''miniapp'' \<longrightarrow> topField config' k = topField config k)
         \<and> (\<forall>k. k \<notin> {''imageUrl'', ''splashImageUrl'', ''iconUrl'', ''homeUrl'', ''webhookUrl''}
                \<longrightarrow> miniappField config' k = miniappField config k)
         \<and> (\<not> hasMiniappObject config \<longrightarrow> config' = config)))
   \<and> ((\<forall>c. manifestFile w \<noteq> Json c) \<longrightarrow>
        manifestFile (snd (updateFarcasterConfig domain names w)) = manifestFile w
        \<and> manifestFile (snd (updateFarcasterConfigWithIcon iconFilename w)) = manifestFile w)
   \<and> (stringified v = v \<longleftrightarrow> allFinite v)"
proof (intro conjI impI)
  assume "manifestFile w = Json config"
  then show "manifestFile (snd (updateFarcasterConfig domain names w)) = Json config
       \<or> (\<exists>config'. manifestFile (snd (updateFarcasterConfig domain names w)) = Json config'
           \<and> (\<forall>k. k \<noteq> ''miniapp'' \<longrightarrow>
                 topField config' k = map_option stringified (topField config k))
           \<and> (\<forall>k. k \<notin> {''imageUrl'', ''splashImageUrl'', ''iconUrl'', ''homeUrl'', ''webhookUrl''}
                  \<longrightarrow> miniappField config' k = map_option stringified (miniappField config k))
           \<and> (\<not> hasMiniappObject config \<longrightarrow> config' = stringified config))"
    by (rule updateFarcasterConfig_frame)
next
  assume "manifestFile w = Json config"
  then show "manifestFile (snd (updateFarcasterConfigWithIcon iconFilename w)) = Json config
       \<or> (\<exists>config'. manifestFile (snd (updateFarcasterConfigWithIcon iconFilename w)) = Json config'
           \<and> (\<forall>k. k \<noteq> ''miniapp'' \<longrightarrow>
                 topField config' k = map_option stringified (topField config k))
           \<and> (\<forall>k. k \<notin> {''imageUrl'', ''splashImageUrl'', ''iconUrl'', ''homeUrl'', ''webhookUrl''}
                  \<longrightarrow> miniappField config' k = map_option stringified (miniappField config k))
           \<and> (\<not> hasMiniappObject config \<longrightarrow> config' = stringified config))"
    by (rule updateFarcasterConfigWithIcon_frame)
next
  assume a: "manifestFile w = Json config \<and> allFinite config"
  from finite_fields_kept [OF a [THEN conjunct2] updateFarcasterConfig_frame [OF a [THEN conjunct1]]]
  show "\<exists>config'. manifestFile (snd (updateFarcasterConfig domain names w)) = Json config'
         \<and> (\<forall>k. k \<noteq> ''miniapp'' \<longrightarrow> topField config' k = topField config k)
         \<and> (\<forall>k. k \<notin> {''imageUrl'', ''splashImageUrl'', ''iconUrl'', ''homeUrl'', ''webhookUrl''}
                \<longrightarrow> miniappField config' k = miniappField config k)
         \<and> (\<not> hasMiniappObject config \<longrightarrow> config' = config)" .
  from finite_fields_kept [OF a [THEN conjunct2]
      updateFarcasterConfigWithIcon_frame [OF a [THEN conjunct1]]]
  show "\<exists>config'. manifestFile (snd (updateFarcasterConfigWithIcon iconFilename w)) = Json config'
         \<and> (\<forall>k. k \<noteq> ''miniapp'' \<longrightarrow> topField config' k = topField config k)
         \<and> (\<forall>k. k \<notin> {''imageUrl'', ''splashImageUrl'', ''iconUrl'', ''homeUrl'', ''webhookUrl''}
                \<longrightarrow> miniappField config' k = miniappField config k)
         \<and> (\<not> hasMiniappObject config \<longrightarrow> config' = config)" .
next
  assume n: "\<forall>c. manifestFile w \<noteq> Json c"
  then show "manifestFile (snd (updateFarcasterConfig domain names w)) = manifestFile w"
    by (rule updateFarcasterConfig_not_json)
  from n show "manifestFile (snd (updateFarcasterConfigWithIcon iconFilename w)) = manifestFile w"
    by (rule updateFarcasterConfigWithIcon_not_json)
next
  show "stringified v = v \<longleftrightarrow> allFinite v" by (rule stringified_id)
qed

theorem manifest_patch_frame_witness:
  "(\<exists>config'.
      manifestFile (snd (updateFarcasterConfig (Some ''app.example'')
          \<lparr>embed = Some ''e.png'', splash = Some ''s.png''\<rparr>
          (emptyWorld\<lparr>manifestFile := Json (JObj
             [(''accountAssociation'', JObj [(''header'', JStr ''abc'')]),
              (''miniapp'', JObj [(''version'', JStr ''1''), (''name'', JStr ''Foo'')])])\<rparr>)))
        = Json config'
      \<and> topField config' ''accountAssociation'' = Some (JObj [(''header'', JStr ''abc'')])
      \<and> miniappField config' ''version'' = Some (JStr ''1'')
      \<and> miniappField config' ''name'' = Some (JStr ''Foo''))
   \<and> (\<exists>config'.
      manifestFile (snd (updateFarcasterConfigWithIcon ''i.png''
          (emptyWorld\<lparr>manifestFile := Json (JObj
             [(''accountAssociation'', JObj [(''header'', JStr ''abc'')]),
              (''miniapp'', JObj [(''version'', JStr ''1''), (''name'', JStr ''Foo'')])])\<rparr>)))
        = Json config'
      \<and> topField config' ''accountAssociation'' = Some (JObj [(''header'', JStr ''abc'')])
      \<and> miniappField config' ''version'' = Some (JStr ''1'')
      \<and> miniappField config' ''name'' = Some (JStr ''Foo''))
   \<and> manifestFile (snd (updateFarcasterConfig (Some ''app.example'')
          \<lparr>embed = Some ''e.png'', splash = Some ''s.png''\<rparr>
          (emptyWorld\<lparr>manifestFile := Malformed ''Unexpected end of JSON input''\<rparr>)))
       = Malformed ''Unexpected end of JSON input''"
proof -
  let ?cfg = "JObj [(''accountAssociation'', JObj [(''header'', JStr ''abc'')]),
                    (''miniapp'', JObj [(''version'', JStr ''1''), (''name'', JStr ''Foo'')])]"
  let ?w = "emptyWorld\<lparr>manifestFile := Json ?cfg\<rparr>"
  let ?T = "{''imageUrl'', ''splashImageUrl'', ''iconUrl'', ''homeUrl'', ''webhookUrl''}"
  have m: "manifestFile ?w = Json ?cfg \<and> allFinite ?cfg" by simp
  have k1: "''accountAssociation'' \<noteq> ''miniapp''" by simp
  have k2: "''version'' \<notin> ?T" by simp
  have k3: "''name'' \<notin> ?T" by simp
  have v1: "topField ?cfg ''accountAssociation'' = Some (JObj [(''header'', JStr ''abc'')])"
    by (simp add: topField_def)
  have v2: "miniappField ?cfg ''version'' = Some (JStr ''1'')"
    by (simp add: topField_def miniappField_def)
  have v3: "miniappField ?cfg ''name'' = Some (JStr ''Foo'')"
    by (simp add: topField_def miniappField_def)
  note t = manifest_patch_frame
    [of ?w ?cfg "Some ''app.example''" "\<lparr>embed = Some ''e.png'', splash = Some ''s.png''\<rparr>"
        "''i.png''" JNull, THEN conjunct2, THEN conjunct1, THEN mp, OF m]
  from t [THEN conjunct1] obtain c1 where
    c1: "manifestFile (snd (updateFarcasterConfig (Some ''app.example'')
        \<lparr>embed = Some ''e.png'', splash = Some ''s.png''\<rparr> ?w)) = Json c1"
    "\<forall>k. k \<noteq> ''miniapp'' \<longrightarrow> topField c1 k = topField ?cfg k"
    "\<forall>k. k \<notin> ?T \<longrightarrow> miniappField c1 k = miniappField ?cfg k"
    by (elim exE conjE)
  have first: "\<exists>config'.
      manifestFile (snd (updateFarcasterConfig (Some ''app.example'')
          \<lparr>embed = Some ''e.png'', splash = Some ''s.png''\<rparr> ?w)) = Json config'
      \<and> topField config' ''accountAssociation'' = Some (JObj [(''header'', JStr ''abc'')])
      \<and> miniappField config' ''version'' = Some (JStr ''1'')
      \<and> miniappField config' ''name'' = Some (JStr ''Foo'')"
    using c1(1) c1(2) [rule_format, OF k1] c1(3) [rule_format, OF k2] c1(3) [rule_format, OF k3]
    by (intro exI [of _ c1]) (simp only: v1 v2 v3 simp_thms)
  from t [THEN conjunct2] obtain c2 where
    c2: "manifestFile (snd (updateFarcasterConfigWithIcon ''i.png'' ?w)) = Json c2"
    "\<forall>k. k \<noteq> ''miniapp'' \<longrightarrow> topField c2 k = topField ?cfg k"
    "\<forall>k. k \<notin> ?T \<longrightarrow> miniappField c2 k = miniappField ?cfg k"
    by (elim exE conjE)
  have second: "\<exists>config'.
      manifestFile (snd (updateFarcasterConfigWithIcon ''i.png'' ?w)) = Json config'
      \<and> topField config' ''accountAssociation'' = Some (JObj [(''header'', JStr ''abc'')])
      \<and> miniappField config' ''version'' = Some (JStr ''1'')
      \<and> miniappField config' ''name'' = Some (JStr ''Foo'')"
    using c2(1) c2(2) [rule_format, OF k1] c2(3) [rule_format, OF k2] c2(3) [rule_format, OF k3]
    by (intro exI [of _ c2]) (simp only: v1 v2 v3 simp_thms)
  let ?w3 = "emptyWorld\<lparr>manifestFile := Malformed ''Unexpected end of JSON input''\<rparr>"
  have nj: "\<forall>c. manifestFile ?w3 \<noteq> Json c" by simp
  have "manifestFile (snd (updateFarcasterConfig (Some ''app.example'')
          \<lparr>embed = Some ''e.png'', splash = Some ''s.png''\<rparr> ?w3)) = manifestFile ?w3"
    by (rule manifest_patch_frame
        [of ?w3 JNull "Some ''app.example''" "\<lparr>embed = Some ''e.png'', splash = Some ''s.png''\<rparr>"
          "''i.png''" JNull, THEN conjunct2, THEN conjunct2, THEN conjunct1, THEN mp, OF nj,
          THEN conjunct1])
  then have third: "manifestFile (snd (updateFarcasterConfig (Some ''app.example'')
          \<lparr>embed = Some ''e.png'', splash = Some ''s.png''\<rparr> ?w3))
       = Malformed ''Unexpected end of JSON input''"
    by simp
  from first second third show ?thesis by (intro conjI)
qed

text \<open>
  A manifest with the top-level field \<open>"big": 1e400\<close>, which \<open>JSON.parse\<close> reads as
  \<open>Infinity\<close>: the patch writes the field back as \<open>null\<close>.
\<close>

theorem manifest_patch_infinite_number_counterexample:
  "manifestFile (snd (updateFarcasterConfig (Some ''app.example'')
       \<lparr>embed = Some ''e.png'', splash = Some ''s.png''\<rparr>
       (emptyWorld\<lparr>manifestFile := Json (JObj
          [(''big'', JNum ''Infinity''), (''miniapp'', JObj [(''name'', JStr ''Foo'')])])\<rparr>)))
     = Json (JObj
          [(''big'', JNull),
           (''miniapp'', JObj
              [(''name'', JStr ''Foo''),
               (''imageUrl'', JStr ''https://app.example/images/e.png''),
               (''splashImageUrl'', JStr ''https://app.example/images/s.png''),
               (''homeUrl'', JStr ''https://app.example''),
               (''webhookUrl'', JStr ''https://app.example/api/webhook'')])])
   \<and> topField (JObj
          [(''big'', JNum ''Infinity''), (''miniapp'', JObj [(''name'', JStr ''Foo'')])]) ''big''
       = Some (JNum ''Infinity'')
   \<and> topField (JObj
          [(''big'', JNull),
           (''miniapp'', JObj
              [(''name'', JStr ''Foo''),
               (''imageUrl'', JStr ''https://app.example/images/e.png''),
               (''splashImageUrl'', JStr ''https://app.example/images/s.png''),
               (''homeUrl'', JStr ''https://app.example''),
               (''webhookUrl'', JStr ''https://app.example/api/webhook'')])]) ''big''
       = Some JNull"
  by (simp add: updateFarcasterConfig_def updateFarcasterConfig_try_def parseManifest_def
      patchScreenshots_def setMiniappProp_def withMiniapp_def writeManifest_def truthyV_def
      truthyS_def templ_def Let_def emptyWorld_def topField_def nonFinite_def)

section \<open>The URLs that \<open>updateFarcasterConfig\<close> writes\<close>

lemma hasMiniappObject_iff:
  "hasMiniappObject c \<longleftrightarrow> (\<exists>kvs m. c = JObj kvs \<and> map_of kvs ''miniapp'' = Some (JObj m))"
  by (cases c) (auto simp: hasMiniappObject_def topField_def split: option.splits json.splits)

lemma hasMiniappObjectE:
  assumes "hasMiniappObject c"
  obtains kvs m where "c = JObj kvs" "map_of kvs ''miniapp'' = Some (JObj m)"
  using assms by (auto simp: hasMiniappObject_iff)

lemma setMiniappProp_obj:
  assumes "hasMiniappObject c"
  shows "\<exists>c'. setMiniappProp c k x = Inr c' \<and> hasMiniappObject c'
              \<and> (\<forall>j. miniappField c' j = (if j = k then Some x else miniappField c j))"
proof -
  from assms obtain kvs m where c: "c = JObj kvs" "map_of kvs ''miniapp'' = Some (JObj m)"
    by (rule hasMiniappObjectE)
  then have "setMiniappProp c k x
      = Inr (JObj (AList.update ''miniapp'' (JObj (AList.update k x m)) kvs))"
    by (simp add: setMiniappProp_def withMiniapp_def)
  with c show ?thesis
    by (simp add: hasMiniappObject_def topField_def miniappField_def update_conv')
qed

lemma set_chain_fields:
  assumes "hasMiniappObject c"
  shows "\<exists>c'. (case (if b1 then setMiniappProp c ''imageUrl'' v1 else Inr c) of
                 Inl e \<Rightarrow> Inl e
               | Inr c1 \<Rightarrow>
                  (case (if b2 then setMiniappProp c1 ''splashImageUrl'' v2 else Inr c1) of
                     Inl e \<Rightarrow> Inl e
                   | Inr c2 \<Rightarrow>
                      (case setMiniappProp c2 ''homeUrl'' v3 of
                         Inl e \<Rightarrow> Inl e
                       | Inr c3 \<Rightarrow> setMiniappProp c3 ''webhookUrl'' v4))) = Inr c'
          \<and> miniappField c' ''webhookUrl'' = Some v4
          \<and> miniappField c' ''homeUrl'' = Some v3
          \<and> miniappField c' ''splashImageUrl''
              = (if b2 then Some v2 else miniappField c ''splashImageUrl'')
          \<and> miniappField c' ''imageUrl''
              = (if b1 then Some v1 else miniappField c ''imageUrl'')"
proof -
  obtain c1 where c1: "(if b1 then setMiniappProp c ''imageUrl'' v1 else Inr c) = Inr c1"
    "hasMiniappObject c1"
    "miniappField c1 ''imageUrl'' = (if b1 then Some v1 else miniappField c ''imageUrl'')"
    "miniappField c1 ''splashImageUrl'' = miniappField c ''splashImageUrl''"
    using setMiniappProp_obj [OF assms, of "''imageUrl''" v1] assms by (cases b1) auto
  obtain c2 where c2: "(if b2 then setMiniappProp c1 ''splashImageUrl'' v2 else Inr c1) = Inr c2"
    "hasMiniappObject c2"
    "miniappField c2 ''imageUrl'' = miniappField c1 ''imageUrl''"
    "miniappField c2 ''splashImageUrl''
       = (if b2 then Some v2 else miniappField c1 ''splashImageUrl'')"
    using setMiniappProp_obj [OF c1(2), of "''splashImageUrl''" v2] c1(2) by (cases b2) auto
  obtain c3 where c3: "setMiniappProp c2 ''homeUrl'' v3 = Inr c3"
    "hasMiniappObject c3"
    "miniappField c3 ''imageUrl'' = miniappField c2 ''imageUrl''"
    "miniappField c3 ''splashImageUrl'' = miniappField c2 ''splashImageUrl''"
    "miniappField c3 ''homeUrl'' = Some v3"
    using setMiniappProp_obj [OF c2(2), of "''homeUrl''" v3] by auto
  obtain c4 where c4: "setMiniappProp c3 ''webhookUrl'' v4 = Inr c4"
    "miniappField c4 ''imageUrl'' = miniappField c3 ''imageUrl''"
    "miniappField c4 ''splashImageUrl'' = miniappField c3 ''splashImageUrl''"
    "miniappField c4 ''homeUrl'' = miniappField c3 ''homeUrl''"
    "miniappField c4 ''webhookUrl'' = Some v4"
    using setMiniappProp_obj [OF c3(2), of "''webhookUrl''" v4] by auto
  show ?thesis
    by (rule exI [of _ c4]) (simp add: c1 c2 c3 c4)
qed

lemma getProp_miniapp_obj:
  assumes "hasMiniappObject c"
  shows "\<exists>m. getProp (Some c) ''miniapp'' = Inr (Some (JObj m))"
  using assms by (auto elim!: hasMiniappObjectE)

lemma patchScreenshots_obj:
  assumes "hasMiniappObject c"
  shows "\<exists>c'. patchScreenshots domain names c = Inr c'
          \<and> miniappField c' ''webhookUrl''
              = Some (JStr ((''https://'' @ templ domain) @ ''/api/webhook''))
          \<and> miniappField c' ''homeUrl'' = Some (JStr (''https://'' @ templ domain))
          \<and> miniappField c' ''splashImageUrl''
              = (if truthyS (splash names)
                 then Some (JStr ((''https://'' @ templ domain) @ ''/images/'' @ templ (splash names)))
                 else miniappField c ''splashImageUrl'')
          \<and> miniappField c' ''imageUrl''
              = (if truthyS (embed names)
                 then Some (JStr ((''https://'' @ templ domain) @ ''/images/'' @ templ (embed names)))
                 else miniappField c ''imageUrl'')"
proof -
  from getProp_miniapp_obj [OF assms] obtain m where
    m: "getProp (Some c) ''miniapp'' = Inr (Some (JObj m))" ..
  let ?v1 = "JStr ((''https://'' @ templ domain) @ ''/images/'' @ templ (embed names))"
  let ?v2 = "JStr ((''https://'' @ templ domain) @ ''/images/'' @ templ (splash names))"
  let ?v3 = "JStr (''https://'' @ templ domain)"
  let ?v4 = "JStr ((''https://'' @ templ domain) @ ''/api/webhook'')"
  have eq: "patchScreenshots domain names c =
      (case (if truthyS (embed names) then setMiniappProp c ''imageUrl'' ?v1 else Inr c) of
         Inl e \<Rightarrow> Inl e
       | Inr c1 \<Rightarrow>
          (case (if truthyS (splash names) then setMiniappProp c1 ''splashImageUrl'' ?v2
                 else Inr c1) of
             Inl e \<Rightarrow> Inl e
           | Inr c2 \<Rightarrow>
              (case setMiniappProp c2 ''homeUrl'' ?v3 of
                 Inl e \<Rightarrow> Inl e
               | Inr c3 \<Rightarrow> setMiniappProp c3 ''webhookUrl'' ?v4)))"
    unfolding patchScreenshots_def Let_def m by (simp only: truthyV_def option.case truthy.simps if_True sum.case)
  show ?thesis
    unfolding eq
    by (rule set_chain_fields [OF assms, where ?b1.0 = "truthyS (embed names)" and ?v1.0 = ?v1
          and ?b2.0 = "truthyS (splash names)" and ?v2.0 = ?v2 and ?v3.0 = ?v3 and ?v4.0 = ?v4])
qed

lemma no_miniapp_fields:
  assumes "\<not> hasMiniappObject c"
  shows "miniappField c k = None"
  using assms
  by (auto simp: hasMiniappObject_def miniappField_def split: option.splits json.splits)

text \<open>
  Claim C5, as amended. For every manifest that has a \<open>miniapp\<close> object, and every
  domain, when the manifest can be written, \<open>updateFarcasterConfig\<close> sets
  \<open>miniapp.imageUrl\<close> to \<open>https://<domain>/images/<embed filename>\<close> and
  \<open>miniapp.splashImageUrl\<close> to \<open>https://<domain>/images/<splash filename>\<close>
  for each filename it is given, and always sets \<open>miniapp.homeUrl\<close> to
  \<open>https://<domain>\<close> and \<open>miniapp.webhookUrl\<close> to
  \<open>https://<domain>/api/webhook\<close>. For a manifest without a \<open>miniapp\<close> object
  it sets none of them: the manifest is left as it was, or is written back as
  \<open>JSON.stringify\<close> renders it, and has no field of a \<open>miniapp\<close> object.
\<close>

theorem updateFarcasterConfig_sets_urls:
  assumes "manifestFile w = Json config"
  shows "(hasMiniappObject config \<and> manifestWriteErr w = None \<longrightarrow>
            (\<exists>config'.
               manifestFile (snd (updateFarcasterConfig domain names w)) = Json config'
               \<and> (truthyS (embed names) \<longrightarrow>
                    miniappField config' ''imageUrl''
                      = Some (JStr (''https://'' @ templ domain @ ''/images/''
                                    @ templ (embed names))))
               \<and> (truthyS (splash names) \<longrightarrow>
                    miniappField config' ''splashImageUrl''
                      = Some (JStr (''https://'' @ templ domain @ ''/images/''
                                    @ templ (splash names))))
               \<and> miniappField config' ''homeUrl'' = Some (JStr (''https://'' @ templ domain))
               \<and> miniappField config' ''webhookUrl''
                   = Some (JStr (''https://'' @ templ domain @ ''/api/webhook''))))
         \<and> (\<not> hasMiniappObject config \<longrightarrow>
            (\<exists>config'.
               manifestFile (snd (updateFarcasterConfig domain names w)) = Json config'
               \<and> (config' = config \<or> config' = stringified config)
               \<and> (\<forall>k. miniappField config' k = None)))"
proof (intro conjI impI)
  assume h: "hasMiniappObject config \<and> manifestWriteErr w = None"
  from patchScreenshots_obj [OF h [THEN conjunct1], of domain names] obtain c' where
    c': "patchScreenshots domain names config = Inr c'"
    "miniappField c' ''webhookUrl''
       = Some (JStr ((''https://'' @ templ domain) @ ''/api/webhook''))"
    "miniappField c' ''homeUrl'' = Some (JStr (''https://'' @ templ domain))"
    "miniappField c' ''splashImageUrl''
       = (if truthyS (splash names)
          then Some (JStr ((''https://'' @ templ domain) @ ''/images/'' @ templ (splash names)))
          else miniappField config ''splashImageUrl'')"
    "miniappField c' ''imageUrl''
       = (if truthyS (embed names)
          then Some (JStr ((''https://'' @ templ domain) @ ''/images/'' @ templ (embed names)))
          else miniappField config ''imageUrl'')"
    by (elim exE conjE)
  have "manifestFile (snd (updateFarcasterConfig domain names w)) = Json (stringified c')"
    using assms h c'(1) by (simp add: updateFarcasterConfig_manifest)
  with c' show "\<exists>config'.
               manifestFile (snd (updateFarcasterConfig domain names w)) = Json config'
               \<and> (truthyS (embed names) \<longrightarrow>
                    miniappField config' ''imageUrl''
                      = Some (JStr (''https://'' @ templ domain @ ''/images/''
                                    @ templ (embed names))))
               \<and> (truthyS (splash names) \<longrightarrow>
                    miniappField config' ''splashImageUrl''
                      = Some (JStr (''https://'' @ templ domain @ ''/images/''
                                    @ templ (splash names))))
               \<and> miniappField config' ''homeUrl'' = Some (JStr (''https://'' @ templ domain))
               \<and> miniappField config' ''webhookUrl''
                   = Some (JStr (''https://'' @ templ domain @ ''/api/webhook''))"
    by (intro exI [of _ "stringified c'"]) (simp add: miniappField_stringified)
next
  assume n: "\<not> hasMiniappObject config"
  then have n': "\<not> hasMiniappObject (stringified config)"
    by (simp add: hasMiniappObject_stringified)
  from updateFarcasterConfig_frame [OF assms, of domain names]
  show "\<exists>config'.
               manifestFile (snd (updateFarcasterConfig domain names w)) = Json config'
               \<and> (config' = config \<or> config' = stringified config)
               \<and> (\<forall>k. miniappField config' k = None)"
  proof
    assume "manifestFile (snd (updateFarcasterConfig domain names w)) = Json config"
    with no_miniapp_fields [OF n] show ?thesis by simp
  next
    assume "\<exists>config'. manifestFile (snd (updateFarcasterConfig domain names w)) = Json config'
         \<and> (\<forall>k. k \<noteq> ''miniapp'' \<longrightarrow>
               topField config' k = map_option stringified (topField config k))
         \<and> (\<forall>k. k \<notin> {''imageUrl'', ''splashImageUrl'', ''iconUrl'', ''homeUrl'', ''webhookUrl''}
                \<longrightarrow> miniappField config' k = map_option stringified (miniappField config k))
         \<and> (\<not> hasMiniappObject config \<longrightarrow> config' = stringified config)"
    with n have "manifestFile (snd (updateFarcasterConfig domain names w))
        = Json (stringified config)"
      by auto
    with no_miniapp_fields [OF n'] show ?thesis by simp
  qed
qed

theorem updateFarcasterConfig_sets_urls_witness:
  "(\<exists>config'.
     manifestFile (snd (updateFarcasterConfig (Some ''app.example'')
         \<lparr>embed = Some ''e.png'', splash = Some ''s.png''\<rparr>
         (emptyWorld\<lparr>manifestFile := Json (JObj
            [(''miniapp'', JObj [(''name'', JStr ''Foo''),
                                 (''homeUrl'', JStr ''https://old.example'')])])\<rparr>)))
       = Json config'
     \<and> miniappField config' ''imageUrl'' = Some (JStr ''https://app.example/images/e.png'')
     \<and> miniappField config' ''splashImageUrl'' = Some (JStr ''https://app.example/images/s.png'')
     \<and> miniappField config' ''homeUrl'' = Some (JStr ''https://app.example'')
     \<and> miniappField config' ''webhookUrl'' = Some (JStr ''https://app.example/api/webhook''))
   \<and> (\<exists>config'.
     manifestFile (snd (updateFarcasterConfig (Some ''app.example'')
         \<lparr>embed = Some ''e.png'', splash = Some ''s.png''\<rparr>
         (emptyWorld\<lparr>manifestFile := Json (JObj [(''frame'', JObj [(''name'', JStr ''Foo'')])])\<rparr>)))
       = Json config'
     \<and> miniappField config' ''imageUrl'' = None)"
proof -
  let ?c1 = "JObj [(''miniapp'', JObj [(''name'', JStr ''Foo''),
                                       (''homeUrl'', JStr ''https://old.example'')])]"
  let ?w1 = "emptyWorld\<lparr>manifestFile := Json ?c1\<rparr>"
  let ?c2 = "JObj [(''frame'', JObj [(''name'', JStr ''Foo'')])]"
  let ?w2 = "emptyWorld\<lparr>manifestFile := Json ?c2\<rparr>"
  let ?names = "\<lparr>embed = Some ''e.png'', splash = Some ''s.png''\<rparr>"
  have m1: "manifestFile ?w1 = Json ?c1" and m2: "manifestFile ?w2 = Json ?c2" by simp_all
  have h1: "hasMiniappObject ?c1 \<and> manifestWriteErr ?w1 = None"
    by (simp add: hasMiniappObject_def topField_def emptyWorld_def)
  have h2: "\<not> hasMiniappObject ?c2" by (simp add: hasMiniappObject_def topField_def)
  from updateFarcasterConfig_sets_urls
    [OF m1, of "Some ''app.example''" ?names, THEN conjunct1, rule_format, OF h1]
  have first: "\<exists>config'.
     manifestFile (snd (updateFarcasterConfig (Some ''app.example'') ?names ?w1)) = Json config'
     \<and> miniappField config' ''imageUrl'' = Some (JStr ''https://app.example/images/e.png'')
     \<and> miniappField config' ''splashImageUrl'' = Some (JStr ''https://app.example/images/s.png'')
     \<and> miniappField config' ''homeUrl'' = Some (JStr ''https://app.example'')
     \<and> miniappField config' ''webhookUrl'' = Some (JStr ''https://app.example/api/webhook'')"
    by (simp add: templ_def truthyS_def)
  from updateFarcasterConfig_sets_urls
    [OF m2, of "Some ''app.example''" ?names, THEN conjunct2, rule_format, OF h2]
  have second: "\<exists>config'.
     manifestFile (snd (updateFarcasterConfig (Some ''app.example'') ?names ?w2)) = Json config'
     \<and> miniappField config' ''imageUrl'' = None"
    by (elim exE conjE) simp
  from first second show ?thesis by (rule conjI)
qed

text \<open>
  A manifest that keeps its application under \<open>frame\<close> and has no \<open>miniapp\<close>
  object: the patch writes it back as it was, and no \<open>miniapp.imageUrl\<close> or
  \<open>miniapp.homeUrl\<close> appears.
\<close>

theorem updateFarcasterConfig_no_miniapp_counterexample:
  "manifestFile (snd (updateFarcasterConfig (Some ''app.example'')
       \<lparr>embed = Some ''e.png'', splash = Some ''s.png''\<rparr>
       (emptyWorld\<lparr>manifestFile := Json (JObj [(''frame'', JObj [(''name'', JStr ''Foo'')])])\<rparr>)))
     = Json (JObj [(''frame'', JObj [(''name'', JStr ''Foo'')])])
   \<and> miniappField (JObj [(''frame'', JObj [(''name'', JStr ''Foo'')])]) ''imageUrl''
       \<noteq> Some (JStr ''https://app.example/images/e.png'')
   \<and> miniappField (JObj [(''frame'', JObj [(''name'', JStr ''Foo'')])]) ''homeUrl''
       \<noteq> Some (JStr ''https://app.example'')"
  by (simp add: updateFarcasterConfig_def updateFarcasterConfig_try_def parseManifest_def
      patchScreenshots_def writeManifest_def truthyV_def emptyWorld_def
      miniappField_def topField_def)

section \<open>The icon URL that \<open>updateFarcasterConfigWithIcon\<close> writes\<close>

lemma resolveDomain_obj:
  assumes "hasMiniappObject c"
  shows "resolveDomain c w =
     (case miniappField c ''homeUrl'' of
        None \<Rightarrow> Inr (''https://'' @ templ (env w ''NEXT_PUBLIC_APP_DOMAIN''))
      | Some h \<Rightarrow>
          if truthy h then
            (case toStringJS h of
               Inl e \<Rightarrow> Inl e
             | Inr u \<Rightarrow>
                 (case urlOrigin w u of
                    None \<Rightarrow> Inl (TypeError ''Invalid URL'')
                  | Some origin \<Rightarrow> Inr origin))
          else Inr (''https://'' @ templ (env w ''NEXT_PUBLIC_APP_DOMAIN'')))"
proof -
  from assms obtain kvs m where c: "c = JObj kvs" "map_of kvs ''miniapp'' = Some (JObj m)"
    by (rule hasMiniappObjectE)
  then show ?thesis
    by (simp add: resolveDomain_def miniappField_def topField_def)
qed

lemma patchIcon_obj:
  assumes "hasMiniappObject c" "iconFilename \<noteq> []" "resolveDomain c w = Inr domain"
  shows "\<exists>c'. patchIcon iconFilename c w = Inr c'
          \<and> miniappField c' ''iconUrl'' = Some (JStr (domain @ ''/images/'' @ iconFilename))"
proof -
  from assms(1) obtain kvs m where c: "c = JObj kvs" "map_of kvs ''miniapp'' = Some (JObj m)"
    by (rule hasMiniappObjectE)
  then have "patchIcon iconFilename c w
      = setMiniappProp c ''iconUrl'' (JStr (domain @ ''/images/'' @ iconFilename))"
    using assms(2,3) by (simp add: patchIcon_def truthyV_def)
  with setMiniappProp_obj [OF assms(1), of "''iconUrl''" "JStr (domain @ ''/images/'' @ iconFilename)"]
  show ?thesis by auto
qed

lemma updateFarcasterConfigWithIcon_written:
  assumes "manifestFile w = Json config" "manifestWriteErr w = None"
    "hasMiniappObject config" "iconFilename \<noteq> []" "resolveDomain config w = Inr domain"
  shows "\<exists>config'. manifestFile (snd (updateFarcasterConfigWithIcon iconFilename w)) = Json config'
          \<and> miniappField config' ''iconUrl'' = Some (JStr (domain @ ''/images/'' @ iconFilename))"
proof -
  from patchIcon_obj [OF assms(3,4,5)] obtain c' where
    c': "patchIcon iconFilename config w = Inr c'"
    "miniappField c' ''iconUrl'' = Some (JStr (domain @ ''/images/'' @ iconFilename))"
    by (elim exE conjE)
  have "manifestFile (snd (updateFarcasterConfigWithIcon iconFilename w)) = Json (stringified c')"
    using assms(1,2) c'(1) by (simp add: updateFarcasterConfigWithIcon_manifest)
  with c'(2) show ?thesis
    by (intro exI [of _ "stringified c'"]) (simp add: miniappField_stringified)
qed

lemma updateFarcasterConfigWithIcon_swallows:
  assumes "manifestFile w = Json config" "resolveDomain config w = Inl e"
  shows "updateFarcasterConfigWithIcon iconFilename w
     = (Inr (), w\<lparr>stderr := stderr w @ [ErrWith ''Error updating farcaster.json:'' e]\<rparr>)"
  using assms
  by (simp add: updateFarcasterConfigWithIcon_def updateFarcasterConfigWithIcon_try_def
      parseManifest_def patchIcon_def logLines_def)

text \<open>
  Claim C6, as amended. For a manifest that has a \<open>miniapp\<close> object, a non-empty
  icon filename and a manifest that can be written: when \<open>miniapp.homeUrl\<close> is
  truthy and \<open>new URL\<close> accepts it, \<open>updateFarcasterConfigWithIcon\<close> sets
  \<open>miniapp.iconUrl\<close> to the origin of that URL followed by
  \<open>/images/<icon filename>\<close>; when \<open>miniapp.homeUrl\<close> is absent or falsy (an
  empty string), it sets \<open>miniapp.iconUrl\<close> to
  \<open>https://<NEXT_PUBLIC_APP_DOMAIN>/images/<icon filename>\<close>; when
  \<open>miniapp.homeUrl\<close> is truthy and \<open>new URL\<close> throws, because the value is not
  a URL or cannot be converted to a string, the patcher logs the error, returns
  normally and changes nothing else. \<open>new URL\<close> is given a string as it is.
\<close>

theorem updateFarcasterConfigWithIcon_sets_iconUrl:
  assumes "manifestFile w = Json config" "hasMiniappObject config" "iconFilename \<noteq> []"
    "manifestWriteErr w = None"
  shows "(\<forall>h u origin.
            miniappField config ''homeUrl'' = Some h \<and> truthy h
            \<and> toStringJS h = Inr u \<and> urlOrigin w u = Some origin \<longrightarrow>
            (\<exists>config'.
               manifestFile (snd (updateFarcasterConfigWithIcon iconFilename w)) = Json config'
               \<and> miniappField config' ''iconUrl''
                   = Some (JStr (origin @ ''/images/'' @ iconFilename))))
         \<and> ((miniappField config ''homeUrl'' = None
              \<or> (\<exists>h. miniappField config ''homeUrl'' = Some h \<and> \<not> truthy h)) \<longrightarrow>
            (\<exists>config'.
               manifestFile (snd (updateFarcasterConfigWithIcon iconFilename w)) = Json config'
               \<and> miniappField config' ''iconUrl''
                   = Some (JStr (''https://'' @ templ (env w ''NEXT_PUBLIC_APP_DOMAIN'')
                                 @ ''/images/'' @ iconFilename))))
         \<and> (\<forall>h u. miniappField config ''homeUrl'' = Some h \<and> truthy h
                \<and> toStringJS h = Inr u \<and> urlOrigin w u = None \<longrightarrow>
              updateFarcasterConfigWithIcon iconFilename w
                = (Inr (), w\<lparr>stderr := stderr w
                     @ [ErrWith ''Error updating farcaster.json:'' (TypeError ''Invalid URL'')]\<rparr>))
         \<and> (\<forall>h e. miniappField config ''homeUrl'' = Some h \<and> truthy h
                \<and> toStringJS h = Inl e \<longrightarrow>
              updateFarcasterConfigWithIcon iconFilename w
                = (Inr (), w\<lparr>stderr := stderr w
                     @ [ErrWith ''Error updating farcaster.json:'' e]\<rparr>))
         \<and> toStringJS (JStr s) = Inr s"
proof (intro conjI allI impI)
  fix h u origin
  assume "miniappField config ''homeUrl'' = Some h \<and> truthy h
            \<and> toStringJS h = Inr u \<and> urlOrigin w u = Some origin"
  then have "resolveDomain config w = Inr origin"
    by (simp add: resolveDomain_obj [OF assms(2)])
  from updateFarcasterConfigWithIcon_written [OF assms(1,4,2,3) this]
  show "\<exists>config'.
      manifestFile (snd (updateFarcasterConfigWithIcon iconFilename w)) = Json config'
      \<and> miniappField config' ''iconUrl'' = Some (JStr (origin @ ''/images/'' @ iconFilename))" .
next
  assume "miniappField config ''homeUrl'' = None
          \<or> (\<exists>h. miniappField config ''homeUrl'' = Some h \<and> \<not> truthy h)"
  then have "resolveDomain config w
      = Inr (''https://'' @ templ (env w ''NEXT_PUBLIC_APP_DOMAIN''))"
    by (auto simp: resolveDomain_obj [OF assms(2)])
  from updateFarcasterConfigWithIcon_written [OF assms(1,4,2,3) this]
  show "\<exists>config'.
      manifestFile (snd (updateFarcasterConfigWithIcon iconFilename w)) = Json config'
      \<and> miniappField config' ''iconUrl''
          = Some (JStr (''https://'' @ templ (env w ''NEXT_PUBLIC_APP_DOMAIN'')
                        @ ''/images/'' @ iconFilename))"
    by simp
next
  fix h u
  assume "miniappField config ''homeUrl'' = Some h \<and> truthy h
          \<and> toStringJS h = Inr u \<and> urlOrigin w u = None"
  then have "resolveDomain config w = Inl (TypeError ''Invalid URL'')"
    by (simp add: resolveDomain_obj [OF assms(2)])
  from updateFarcasterConfigWithIcon_swallows [OF assms(1) this]
  show "updateFarcasterConfigWithIcon iconFilename w
      = (Inr (), w\<lparr>stderr := stderr w
           @ [ErrWith ''Error updating farcaster.json:'' (TypeError ''Invalid URL'')]\<rparr>)" .
next
  fix h e
  assume "miniappField config ''homeUrl'' = Some h \<and> truthy h \<and> toStringJS h = Inl e"
  then have "resolveDomain config w = Inl e"
    by (simp add: resolveDomain_obj [OF assms(2)])
  from updateFarcasterConfigWithIcon_swallows [OF assms(1) this]
  show "updateFarcasterConfigWithIcon iconFilename w
      = (Inr (), w\<lparr>stderr := stderr w @ [ErrWith ''Error updating farcaster.json:'' e]\<rparr>)" .
next
  show "toStringJS (JStr s) = Inr s" by simp
qed

theorem updateFarcasterConfigWithIcon_sets_iconUrl_witness:
  "(\<exists>config'.
      manifestFile (snd (updateFarcasterConfigWithIcon ''i.png''
          (emptyWorld\<lparr>manifestFile := Json (JObj
               [(''miniapp'', JObj [(''homeUrl'', JStr ''https://old.example/home'')])]),
             urlOrigin := [''https://old.example/home'' \<mapsto> ''https://old.example'']\<rparr>)))
        = Json config'
      \<and> miniappField config' ''iconUrl'' = Some (JStr ''https://old.example/images/i.png''))
   \<and> (\<exists>config'.
      manifestFile (snd (updateFarcasterConfigWithIcon ''i.png''
          (emptyWorld\<lparr>manifestFile := Json (JObj [(''miniapp'', JObj [(''name'', JStr ''Foo'')])]),
             env := [''NEXT_PUBLIC_APP_DOMAIN'' \<mapsto> ''app.example'']\<rparr>)))
        = Json config'
      \<and> miniappField config' ''iconUrl'' = Some (JStr ''https://app.example/images/i.png''))
   \<and> updateFarcasterConfigWithIcon ''i.png''
          (emptyWorld\<lparr>manifestFile := Json (JObj
               [(''miniapp'', JObj [(''homeUrl'', JStr ''example.com'')])])\<rparr>)
       = (Inr (),
          emptyWorld\<lparr>manifestFile := Json (JObj
               [(''miniapp'', JObj [(''homeUrl'', JStr ''example.com'')])]),
             stderr := [ErrWith ''Error updating farcaster.json:'' (TypeError ''Invalid URL'')]\<rparr>)
   \<and> updateFarcasterConfigWithIcon ''i.png''
          (emptyWorld\<lparr>manifestFile := Json (JObj
               [(''miniapp'', JObj [(''homeUrl'',
                   JArr [JStr ''https://a.com/'', JObj [(''toString'', JNum ''1'')]])])])\<rparr>)
       = (Inr (),
          emptyWorld\<lparr>manifestFile := Json (JObj
               [(''miniapp'', JObj [(''homeUrl'',
                   JArr [JStr ''https://a.com/'', JObj [(''toString'', JNum ''1'')]])])]),
             stderr := [ErrWith ''Error updating farcaster.json:''
                          (TypeError ''Cannot convert object to primitive value'')]\<rparr>)"
proof -
  let ?c1 = "JObj [(''miniapp'', JObj [(''homeUrl'', JStr ''https://old.example/home'')])]"
  let ?w1 = "emptyWorld\<lparr>manifestFile := Json ?c1,
               urlOrigin := [''https://old.example/home'' \<mapsto> ''https://old.example'']\<rparr>"
  let ?c2 = "JObj [(''miniapp'', JObj [(''name'', JStr ''Foo'')])]"
  let ?w2 = "emptyWorld\<lparr>manifestFile := Json ?c2,
               env := [''NEXT_PUBLIC_APP_DOMAIN'' \<mapsto> ''app.example'']\<rparr>"
  let ?c3 = "JObj [(''miniapp'', JObj [(''homeUrl'', JStr ''example.com'')])]"
  let ?w3 = "emptyWorld\<lparr>manifestFile := Json ?c3\<rparr>"
  let ?h4 = "JArr [JStr ''https://a.com/'', JObj [(''toString'', JNum ''1'')]]"
  let ?c4 = "JObj [(''miniapp'', JObj [(''homeUrl'', ?h4)])]"
  let ?w4 = "emptyWorld\<lparr>manifestFile := Json ?c4\<rparr>"
  have h1: "manifestFile ?w1 = Json ?c1" "hasMiniappObject ?c1" "''i.png'' \<noteq> []"
    "manifestWriteErr ?w1 = None"
    by (simp_all add: emptyWorld_def hasMiniappObject_def topField_def)
  have h2: "manifestFile ?w2 = Json ?c2" "hasMiniappObject ?c2" "''i.png'' \<noteq> []"
    "manifestWriteErr ?w2 = None"
    by (simp_all add: emptyWorld_def hasMiniappObject_def topField_def)
  have h3: "manifestFile ?w3 = Json ?c3" "hasMiniappObject ?c3" "''i.png'' \<noteq> []"
    "manifestWriteErr ?w3 = None"
    by (simp_all add: emptyWorld_def hasMiniappObject_def topField_def)
  have h4: "manifestFile ?w4 = Json ?c4" "hasMiniappObject ?c4" "''i.png'' \<noteq> []"
    "manifestWriteErr ?w4 = None"
    by (simp_all add: emptyWorld_def hasMiniappObject_def topField_def)
  have a: "miniappField ?c1 ''homeUrl'' = Some (JStr ''https://old.example/home'')
           \<and> truthy (JStr ''https://old.example/home'')
           \<and> toStringJS (JStr ''https://old.example/home'') = Inr ''https://old.example/home''
           \<and> urlOrigin ?w1 ''https://old.example/home'' = Some ''https://old.example''"
    by (simp add: miniappField_def topField_def)
  have b: "miniappField ?c2 ''homeUrl'' = None
           \<or> (\<exists>h. miniappField ?c2 ''homeUrl'' = Some h \<and> \<not> truthy h)"
    by (simp add: miniappField_def topField_def)
  have c: "miniappField ?c3 ''homeUrl'' = Some (JStr ''example.com'')
           \<and> truthy (JStr ''example.com'')
           \<and> toStringJS (JStr ''example.com'') = Inr ''example.com''
           \<and> urlOrigin ?w3 ''example.com'' = None"
    by (simp add: miniappField_def topField_def emptyWorld_def)
  have d: "miniappField ?c4 ''homeUrl'' = Some ?h4 \<and> truthy ?h4
           \<and> toStringJS ?h4 = Inl (TypeError ''Cannot convert object to primitive value'')"
    by (simp add: miniappField_def topField_def)
  note t1 = updateFarcasterConfigWithIcon_sets_iconUrl
    [OF h1, THEN conjunct1, rule_format, OF a]
  note t2 = updateFarcasterConfigWithIcon_sets_iconUrl
    [OF h2, THEN conjunct2, THEN conjunct1, rule_format, OF b]
  note t3 = updateFarcasterConfigWithIcon_sets_iconUrl
    [OF h3, THEN conjunct2, THEN conjunct2, THEN conjunct1, rule_format, OF c]
  note t4 = updateFarcasterConfigWithIcon_sets_iconUrl
    [OF h4, THEN conjunct2, THEN conjunct2, THEN conjunct2, THEN conjunct1, rule_format, OF d]
  from t1 t2 t3 t4 show ?thesis by (simp add: templ_def emptyWorld_def)
qed

text \<open>
  A \<open>homeUrl\<close> without a scheme is present but is not a URL: \<open>new URL\<close> throws,
  the error is swallowed, and no \<open>iconUrl\<close> is written.
\<close>

theorem updateFarcasterConfigWithIcon_invalid_homeUrl_counterexample:
  "snd (updateFarcasterConfigWithIcon ''i.png''
      (emptyWorld\<lparr>manifestFile := Json (JObj
         [(''miniapp'', JObj [(''name'', JStr ''Foo''), (''homeUrl'', JStr ''example.com'')])]),
         env := [''NEXT_PUBLIC_APP_DOMAIN'' \<mapsto> ''app.example'']\<rparr>))
     = emptyWorld\<lparr>manifestFile := Json (JObj
         [(''miniapp'', JObj [(''name'', JStr ''Foo''), (''homeUrl'', JStr ''example.com'')])]),
         env := [''NEXT_PUBLIC_APP_DOMAIN'' \<mapsto> ''app.example''],
         stderr := [ErrWith ''Error updating farcaster.json:'' (TypeError ''Invalid URL'')]\<rparr>
   \<and> miniappField (JObj
         [(''miniapp'', JObj [(''name'', JStr ''Foo''), (''homeUrl'', JStr ''example.com'')])])
       ''iconUrl'' = None"
  by (simp add: updateFarcasterConfigWithIcon_def updateFarcasterConfigWithIcon_try_def
      parseManifest_def patchIcon_def resolveDomain_def logLines_def emptyWorld_def
      miniappField_def topField_def)

section \<open>When \<open>generateIcon\<close> raises\<close>

lemma generateIcon_rejected:
  assumes "togetherReply w = ApiRejects msg"
  shows "generateIcon prompt dimensions now w
     = (Inl (Error msg),
        w\<lparr>requests := requests w
               @ [ImagesCreate FLUX_MODEL_id prompt
                    (width (case dimensions of None \<Rightarrow> ICON_DIMENSIONS | Some d \<Rightarrow> d))
                    (height (case dimensions of None \<Rightarrow> ICON_DIMENSIONS | Some d \<Rightarrow> d))
                    FLUX_MODEL_defaultSteps],
           stderr := stderr w @ [ErrWith ''Failed to generate icon image:'' (Error msg)]\<rparr>)"
  using assms by (simp add: generateIcon_def generateIcon_try_def Let_def logLines_def)

lemma generateIcon_no_data:
  assumes "togetherReply w = ApiResolves r" "data r = None \<or> data r = Some []"
  shows "fst (generateIcon prompt dimensions now w) = Inl (Error ''No image data received from API'')
         \<and> imagesDir (snd (generateIcon prompt dimensions now w)) = imagesDir w
         \<and> manifestFile (snd (generateIcon prompt dimensions now w)) = manifestFile w"
  using assms by (auto simp: generateIcon_def generateIcon_try_def Let_def logLines_def)

lemma generateIcon_no_base64:
  assumes "togetherReply w = ApiResolves r" "data r = Some (imageData # others)"
    "\<not> truthyS (b64_json imageData)"
  shows "fst (generateIcon prompt dimensions now w) = Inl (Error ''No base64 image data in response'')
         \<and> imagesDir (snd (generateIcon prompt dimensions now w)) = imagesDir w
         \<and> manifestFile (snd (generateIcon prompt dimensions now w)) = manifestFile w"
  using assms by (auto simp: generateIcon_def generateIcon_try_def Let_def logLines_def)

lemma generateIcon_saves:
  assumes "togetherReply w = ApiResolves r" "data r = Some (imageData # others)"
    "truthyS (b64_json imageData)"
  shows "fst (generateIcon prompt dimensions now w)
     = (case imagesWriteErr w of
          Some msg \<Rightarrow> Inl (Error msg)
        | None \<Rightarrow> Inr (generateFilename_flux ''icon'' (Some ''flux'') now))"
  using assms
  by (auto simp: generateIcon_def generateIcon_try_def Let_def logLines_def
      downloadAndSaveImage_def downloadAndSaveImage_try_def writeImage_def split: option.splits)

text \<open>
  Claim C3, as amended. \<open>generateIcon\<close> raises if and only if the call to the image
  service fails, or the response has no result list or an empty one, or the first
  result has no base64 field or an empty one, or saving the image fails. In all but the
  last case it raises before anything is written: the images directory and the manifest
  are as they were.
\<close>

theorem generateIcon_raises_iff:
  "(isl (fst (generateIcon prompt dimensions now w)) \<longleftrightarrow>
      (\<exists>msg. togetherReply w = ApiRejects msg)
      \<or> (\<exists>r. togetherReply w = ApiResolves r \<and> (data r = None \<or> data r = Some []))
      \<or> (\<exists>r imageData others.
            togetherReply w = ApiResolves r \<and> data r = Some (imageData # others)
            \<and> (\<not> truthyS (b64_json imageData) \<or> imagesWriteErr w \<noteq> None)))
   \<and> ((\<exists>msg. togetherReply w = ApiRejects msg)
        \<or> (\<exists>r. togetherReply w = ApiResolves r \<and> (data r = None \<or> data r = Some []))
        \<or> (\<exists>r imageData others.
              togetherReply w = ApiResolves r \<and> data r = Some (imageData # others)
              \<and> \<not> truthyS (b64_json imageData))
       \<longrightarrow> imagesDir (snd (generateIcon prompt dimensions now w)) = imagesDir w
           \<and> manifestFile (snd (generateIcon prompt dimensions now w)) = manifestFile w)"
proof (cases "togetherReply w")
  case (ApiRejects msg)
  then show ?thesis by (simp add: generateIcon_rejected)
next
  case (ApiResolves r)
  show ?thesis
  proof (cases "data r")
    case None
    with ApiResolves generateIcon_no_data [of w r prompt dimensions now] show ?thesis by simp
  next
    case (Some items)
    show ?thesis
    proof (cases items)
      case Nil
      with Some ApiResolves generateIcon_no_data [of w r prompt dimensions now]
      show ?thesis by simp
    next
      case (Cons imageData others)
      show ?thesis
      proof (cases "truthyS (b64_json imageData)")
        case False
        with Cons Some ApiResolves
          generateIcon_no_base64 [of w r imageData others prompt dimensions now]
        show ?thesis by simp
      next
        case True
        with Cons Some ApiResolves
          generateIcon_saves [of w r imageData others prompt dimensions now]
        show ?thesis by (auto split: option.splits)
      qed
    qed
  qed
qed

theorem generateIcon_raises_iff_witness:
  "isl (fst (generateIcon ''an icon'' None ''2024-01-15T10:30:45.123Z''
        (emptyWorld\<lparr>togetherReply := ApiResolves \<lparr>data = Some []\<rparr>,
           imagesDir := Some [\<lparr>fileName = ''logo.png'', fileData = Bytes ''x'',
                               unlinkFails = False\<rparr>]\<rparr>)))
   \<and> imagesDir (snd (generateIcon ''an icon'' None ''2024-01-15T10:30:45.123Z''
        (emptyWorld\<lparr>togetherReply := ApiResolves \<lparr>data = Some []\<rparr>,
           imagesDir := Some [\<lparr>fileName = ''logo.png'', fileData = Bytes ''x'',
                               unlinkFails = False\<rparr>]\<rparr>)))
       = Some [\<lparr>fileName = ''logo.png'', fileData = Bytes ''x'', unlinkFails = False\<rparr>]
   \<and> \<not> isl (fst (generateIcon ''an icon'' None ''2024-01-15T10:30:45.123Z''
        (emptyWorld\<lparr>togetherReply :=
           ApiResolves \<lparr>data = Some [\<lparr>b64_json = Some ''aGVsbG8=''\<rparr>]\<rparr>\<rparr>)))"
  using generateIcon_raises_iff
      [of "''an icon''" None "''2024-01-15T10:30:45.123Z''"
        "emptyWorld\<lparr>togetherReply := ApiResolves \<lparr>data = Some []\<rparr>,
           imagesDir := Some [\<lparr>fileName = ''logo.png'', fileData = Bytes ''x'',
                               unlinkFails = False\<rparr>]\<rparr>"]
    generateIcon_raises_iff
      [of "''an icon''" None "''2024-01-15T10:30:45.123Z''"
        "emptyWorld\<lparr>togetherReply :=
           ApiResolves \<lparr>data = Some [\<lparr>b64_json = Some ''aGVsbG8=''\<rparr>]\<rparr>\<rparr>"]
  by (simp add: emptyWorld_def truthyS_def)

text \<open>
  The image service rejects the call (a rate limit): there is no response to inspect
  and nothing is saved, yet \<open>generateIcon\<close> raises.
\<close>

theorem generateIcon_api_rejects_counterexample:
  "fst (generateIcon ''an icon'' None ''2024-01-15T10:30:45.123Z''
        (emptyWorld\<lparr>togetherReply := ApiRejects ''429 Too Many Requests''\<rparr>))
     = Inl (Error ''429 Too Many Requests'')
   \<and> togetherReply (emptyWorld\<lparr>togetherReply := ApiRejects ''429 Too Many Requests''\<rparr>)
       = ApiRejects ''429 Too Many Requests''
   \<and> imagesWriteErr (emptyWorld\<lparr>togetherReply := ApiRejects ''429 Too Many Requests''\<rparr>) = None"
  by (simp add: generateIcon_def generateIcon_try_def Let_def emptyWorld_def)

section \<open>The application name in the icon prompt\<close>

lemma getAppNameFromConfig_name:
  assumes "manifestFile w = Json config" "miniappField config ''name'' = Some v"
  shows "fst (getAppNameFromConfig w) = (if truthy v then v else JStr ''Mini App'')"
proof -
  from assms(2) obtain kvs m where
    c: "config = JObj kvs" "map_of kvs ''miniapp'' = Some (JObj m)" "map_of m ''name'' = Some v"
    by (auto simp: miniappField_def topField_def split: json.splits option.splits)
  with assms(1) show ?thesis
    by (simp add: getAppNameFromConfig_def getAppNameFromConfig_try_def parseManifest_def)
qed

lemma getAppNameFromConfig_no_name:
  assumes "manifestFile w = Json config" "miniappField config ''name'' = None"
  shows "fst (getAppNameFromConfig w) = JStr ''Mini App''"
proof (cases config)
  case (JObj kvs)
  show ?thesis
  proof (cases "map_of kvs ''miniapp''")
    case None
    with JObj assms(1) show ?thesis
      by (simp add: getAppNameFromConfig_def getAppNameFromConfig_try_def parseManifest_def)
  next
    case (Some m)
    with JObj assms show ?thesis
      by (cases m)
        (simp_all add: getAppNameFromConfig_def getAppNameFromConfig_try_def parseManifest_def
          miniappField_def topField_def)
  qed
qed (use assms(1) in \<open>simp_all add: getAppNameFromConfig_def getAppNameFromConfig_try_def
      parseManifest_def\<close>)

lemma getAppNameFromConfig_unreadable:
  assumes "manifestFile w = Absent \<or> (\<exists>msg. manifestFile w = Unreadable msg)
           \<or> (\<exists>msg. manifestFile w = Malformed msg)"
  shows "fst (getAppNameFromConfig w) = JStr ''Mini App''"
  using assms
  by (auto simp: getAppNameFromConfig_def getAppNameFromConfig_try_def parseManifest_def)

lemma generateIconPrompt_includes:
  assumes "toStringJS v = Inr s"
  shows "\<exists>p. generateIconPrompt v = Inr p \<and> includesStr p (quoted s) \<and> includesStr p s"
proof -
  let ?a = "''Create a clean, minimalist app icon with the text ''"
  let ?b = "'' in bold, modern typography. Square format, centered text, simple background, high contrast, professional design suitable for mobile app icon. Clean and readable at small sizes.''"
  let ?p = "?a @ quoted s @ ?b"
  have p: "generateIconPrompt v = Inr ?p"
    using assms by (simp add: generateIconPrompt_def quoted_def)
  have q: "includesStr ?p (quoted s)"
    unfolding includesStr_def by (rule sublist_appendI)
  have "?p = (?a @ [CHR 0x27]) @ s @ ([CHR 0x27] @ ?b)"
    by (simp add: quoted_def)
  then have "includesStr ?p s"
    unfolding includesStr_def by (simp only: sublist_appendI)
  with p q show ?thesis by (intro exI [of _ ?p]) (simp only: simp_thms)
qed

lemma generateIconPrompt_Inr:
  assumes "generateIconPrompt v = Inr p"
  shows "\<exists>s. toStringJS v = Inr s"
  using assms by (cases "toStringJS v") (simp_all add: generateIconPrompt_def)

lemma generateIconPrompt_Inl:
  assumes "generateIconPrompt v = Inl e"
  shows "toStringJS v = Inl e"
  using assms by (cases "toStringJS v") (simp_all add: generateIconPrompt_def)

lemma getAppNameFromConfig_requests [simp]:
  "requests (snd (getAppNameFromConfig w)) = requests w"
  "togetherReply (snd (getAppNameFromConfig w)) = togetherReply w"
  by (simp_all add: getAppNameFromConfig_def logLines_def split: sum.splits)

lemma clearExistingIcons_requests [simp]:
  "requests (clearExistingIcons w) = requests w"
  by (simp add: clearExistingIcons_def Let_def split: option.splits prod.splits)

lemma generateIcon_requests:
  "requests (snd (generateIcon prompt dimensions now w))
     = requests w
       @ [ImagesCreate FLUX_MODEL_id prompt
            (width (case dimensions of None \<Rightarrow> ICON_DIMENSIONS | Some d \<Rightarrow> d))
            (height (case dimensions of None \<Rightarrow> ICON_DIMENSIONS | Some d \<Rightarrow> d))
            FLUX_MODEL_defaultSteps]"
  by (simp add: generateIcon_def generateIcon_try_def Let_def logLines_def
      downloadAndSaveImage_def downloadAndSaveImage_try_def writeImage_def
      split: api_reply.splits option.splits list.splits sum.splits prod.splits)

lemma updateFarcasterConfigWithIcon_requests [simp]:
  "requests (snd (updateFarcasterConfigWithIcon iconFilename w)) = requests w"
  by (simp add: updateFarcasterConfigWithIcon_def updateFarcasterConfigWithIcon_try_def
      writeManifest_def logLines_def split: prod.splits sum.splits option.splits)

lemma main_steps_requests:
  assumes "\<not> truthyS argv2" "generateIconPrompt (fst (getAppNameFromConfig w)) = Inr p"
  shows "requests (snd (main_steps argv2 now w))
     = requests w @ [ImagesCreate FLUX_MODEL_id p 208 208 4]"
proof -
  obtain appName w1 where g: "getAppNameFromConfig w = (appName, w1)"
    by (cases "getAppNameFromConfig w")
  then have r1: "requests w1 = requests w"
    using getAppNameFromConfig_requests(1) [of w] by simp
  from g assms(2) have p: "generateIconPrompt appName = Inr p" by simp
  from generateIconPrompt_Inr [OF p] obtain s where s: "toStringJS appName = Inr s" ..
  let ?g = "generateIcon p (Some ICON_DIMENSIONS) now (clearExistingIcons w1)"
  have r2: "requests (snd ?g) = requests w @ [ImagesCreate FLUX_MODEL_id p 208 208 4]"
    by (simp add: generateIcon_requests r1 ICON_DIMENSIONS_def FLUX_MODEL_defaultSteps_def)
  have "requests (snd (main_steps argv2 now w)) = requests (snd ?g)"
    using assms(1) p s
    by (cases ?g; cases "fst ?g") (simp_all add: main_steps_def g Let_def)
  with r2 show ?thesis by simp
qed

lemma main_steps_raises:
  assumes "\<not> truthyS argv2" "generateIconPrompt (fst (getAppNameFromConfig w)) = Inl e"
  shows "main_steps argv2 now w = (Inl e, snd (getAppNameFromConfig w))"
proof -
  obtain appName w1 where g: "getAppNameFromConfig w = (appName, w1)"
    by (cases "getAppNameFromConfig w")
  with assms show ?thesis by (simp add: main_steps_def Let_def)
qed

lemma main_requests:
  assumes "truthyS (env w ''TOGETHER_API_KEY'')"
  shows "requests (snd (main argv2 now w)) = requests (snd (main_steps argv2 now w))"
    and "fst (main_steps argv2 now w) = Inl e \<Longrightarrow> fst (main argv2 now w) = Exit 1"
  using assms
  by (cases "main_steps argv2 now w"; cases "fst (main_steps argv2 now w)";
      simp add: main_def Let_def logLines_def)+

text \<open>
  Claim C7. When the manifest gives \<open>miniapp.name\<close> as a string, a prompt is
  synthesized from the application name and contains that string, and for a non-empty
  name contains it between single quotes. When the manifest is missing, unreadable, does
  not parse, or has no \<open>miniapp.name\<close>, the application name is \<open>Mini App\<close> and
  the synthesized prompt contains it between single quotes. When no prompt is given on
  the command line and the API key is set, the prompt \<open>main\<close> sends to the image
  service is the one synthesized from the application name; when no prompt can be
  synthesized, because the name cannot be converted to a string, \<open>main\<close> exits with
  code 1 and sends nothing.
\<close>

theorem icon_prompt_contains_app_name:
  "(manifestFile w = Json config \<and> miniappField config ''name'' = Some (JStr s) \<longrightarrow>
      (\<exists>p. generateIconPrompt (fst (getAppNameFromConfig w)) = Inr p
          \<and> includesStr p s
          \<and> (s \<noteq> [] \<longrightarrow>
                fst (getAppNameFromConfig w) = JStr s \<and> includesStr p (quoted s))))
   \<and> (manifestFile w = Absent \<or> (\<exists>msg. manifestFile w = Unreadable msg)
       \<or> (\<exists>msg. manifestFile w = Malformed msg)
       \<or> (\<exists>c. manifestFile w = Json c \<and> miniappField c ''name'' = None) \<longrightarrow>
         fst (getAppNameFromConfig w) = JStr ''Mini App''
         \<and> (\<exists>p. generateIconPrompt (fst (getAppNameFromConfig w)) = Inr p
               \<and> includesStr p (quoted ''Mini App'')))
   \<and> (\<forall>p. \<not> truthyS argv2 \<and> truthyS (env w ''TOGETHER_API_KEY'')
           \<and> generateIconPrompt (fst (getAppNameFromConfig w)) = Inr p \<longrightarrow>
         requests (snd (main argv2 now w))
           = requests w @ [ImagesCreate FLUX_MODEL_id p 208 208 4])
   \<and> (\<forall>e. \<not> truthyS argv2 \<and> truthyS (env w ''TOGETHER_API_KEY'')
           \<and> generateIconPrompt (fst (getAppNameFromConfig w)) = Inl e \<longrightarrow>
         fst (main argv2 now w) = Exit 1
         \<and> requests (snd (main argv2 now w)) = requests w)"
proof (intro conjI impI allI)
  assume a: "manifestFile w = Json config \<and> miniappField config ''name'' = Some (JStr s)"
  then have n: "fst (getAppNameFromConfig w) = (if s \<noteq> [] then JStr s else JStr ''Mini App'')"
    using getAppNameFromConfig_name [of w config "JStr s"] by simp
  show "\<exists>p. generateIconPrompt (fst (getAppNameFromConfig w)) = Inr p
          \<and> includesStr p s
          \<and> (s \<noteq> [] \<longrightarrow>
                fst (getAppNameFromConfig w) = JStr s \<and> includesStr p (quoted s))"
  proof (cases "s = []")
    case True
    have "toStringJS (JStr ''Mini App'') = Inr ''Mini App''" by simp
    from generateIconPrompt_includes [OF this] obtain p where
      "generateIconPrompt (JStr ''Mini App'') = Inr p" by (elim exE conjE)
    with n True show ?thesis by (simp add: includesStr_def)
  next
    case False
    have "toStringJS (JStr s) = Inr s" by simp
    from generateIconPrompt_includes [OF this] obtain p where
      "generateIconPrompt (JStr s) = Inr p" "includesStr p (quoted s)" "includesStr p s"
      by (elim exE conjE)
    with n False show ?thesis by simp
  qed
next
  assume "manifestFile w = Absent \<or> (\<exists>msg. manifestFile w = Unreadable msg)
       \<or> (\<exists>msg. manifestFile w = Malformed msg)
       \<or> (\<exists>c. manifestFile w = Json c \<and> miniappField c ''name'' = None)"
  then show n: "fst (getAppNameFromConfig w) = JStr ''Mini App''"
    using getAppNameFromConfig_unreadable [of w] getAppNameFromConfig_no_name [of w] by blast
  have "toStringJS (JStr ''Mini App'') = Inr ''Mini App''" by simp
  from generateIconPrompt_includes [OF this] obtain p where
    "generateIconPrompt (JStr ''Mini App'') = Inr p" "includesStr p (quoted ''Mini App'')"
    by (elim exE conjE)
  then show "\<exists>p. generateIconPrompt (fst (getAppNameFromConfig w)) = Inr p
               \<and> includesStr p (quoted ''Mini App'')"
    unfolding n by simp
next
  fix p
  assume a: "\<not> truthyS argv2 \<and> truthyS (env w ''TOGETHER_API_KEY'')
           \<and> generateIconPrompt (fst (getAppNameFromConfig w)) = Inr p"
  then have "requests (snd (main_steps argv2 now w))
      = requests w @ [ImagesCreate FLUX_MODEL_id p 208 208 4]"
    by (simp add: main_steps_requests)
  with a show "requests (snd (main argv2 now w))
           = requests w @ [ImagesCreate FLUX_MODEL_id p 208 208 4]"
    by (simp add: main_requests(1))
next
  fix e
  assume a: "\<not> truthyS argv2 \<and> truthyS (env w ''TOGETHER_API_KEY'')
           \<and> generateIconPrompt (fst (getAppNameFromConfig w)) = Inl e"
  then have m: "main_steps argv2 now w = (Inl e, snd (getAppNameFromConfig w))"
    by (simp add: main_steps_raises)
  then have "fst (main_steps argv2 now w) = Inl e" by simp
  with a show "fst (main argv2 now w) = Exit 1"
    using main_requests(2) [of w argv2 now e] by simp
  from a m show "requests (snd (main argv2 now w)) = requests w"
    by (simp add: main_requests(1))
qed

theorem icon_prompt_contains_app_name_witness:
  "(\<exists>p. generateIconPrompt (fst (getAppNameFromConfig
        (emptyWorld\<lparr>manifestFile := Json (JObj [(''miniapp'', JObj [(''name'', JStr ''Foo'')])]),
           env := [''TOGETHER_API_KEY'' \<mapsto> ''key'']\<rparr>))) = Inr p
      \<and> includesStr p (quoted ''Foo''))
   \<and> fst (getAppNameFromConfig emptyWorld) = JStr ''Mini App''
   \<and> requests (snd (main None ''2024-01-15T10:30:45.123Z''
        (emptyWorld\<lparr>manifestFile := Json (JObj [(''miniapp'', JObj [(''name'', JStr ''Foo'')])]),
           env := [''TOGETHER_API_KEY'' \<mapsto> ''key'']\<rparr>)))
     = [ImagesCreate FLUX_MODEL_id
          (''Create a clean, minimalist app icon with the text '' @ quoted ''Foo''
           @ '' in bold, modern typography. Square format, centered text, simple background, high contrast, professional design suitable for mobile app icon. Clean and readable at small sizes.'')
          208 208 4]
   \<and> fst (main None ''2024-01-15T10:30:45.123Z''
        (emptyWorld\<lparr>manifestFile := Json (JObj
             [(''miniapp'', JObj [(''name'', JObj [(''toString'', JNum ''1'')])])]),
           env := [''TOGETHER_API_KEY'' \<mapsto> ''key'']\<rparr>)) = Exit 1
   \<and> requests (snd (main None ''2024-01-15T10:30:45.123Z''
        (emptyWorld\<lparr>manifestFile := Json (JObj
             [(''miniapp'', JObj [(''name'', JObj [(''toString'', JNum ''1'')])])]),
           env := [''TOGETHER_API_KEY'' \<mapsto> ''key'']\<rparr>))) = []"
proof -
  let ?c = "JObj [(''miniapp'', JObj [(''name'', JStr ''Foo'')])]"
  let ?w = "emptyWorld\<lparr>manifestFile := Json ?c, env := [''TOGETHER_API_KEY'' \<mapsto> ''key'']\<rparr>"
  let ?c' = "JObj [(''miniapp'', JObj [(''name'', JObj [(''toString'', JNum ''1'')])])]"
  let ?w' = "emptyWorld\<lparr>manifestFile := Json ?c', env := [''TOGETHER_API_KEY'' \<mapsto> ''key'']\<rparr>"
  let ?p = "''Create a clean, minimalist app icon with the text '' @ quoted ''Foo''
           @ '' in bold, modern typography. Square format, centered text, simple background, high contrast, professional design suitable for mobile app icon. Clean and readable at small sizes.''"
  have h1: "manifestFile ?w = Json ?c \<and> miniappField ?c ''name'' = Some (JStr ''Foo'')"
    by (simp add: miniappField_def topField_def)
  have h2: "manifestFile emptyWorld = Absent \<or> (\<exists>msg. manifestFile emptyWorld = Unreadable msg)
       \<or> (\<exists>msg. manifestFile emptyWorld = Malformed msg)
       \<or> (\<exists>c. manifestFile emptyWorld = Json c \<and> miniappField c ''name'' = None)"
    by (simp add: emptyWorld_def)
  have n: "fst (getAppNameFromConfig ?w) = JStr ''Foo''"
    by (simp add: getAppNameFromConfig_def getAppNameFromConfig_try_def parseManifest_def)
  have n': "fst (getAppNameFromConfig ?w') = JObj [(''toString'', JNum ''1'')]"
    by (simp add: getAppNameFromConfig_def getAppNameFromConfig_try_def parseManifest_def)
  have h3: "\<not> truthyS None \<and> truthyS (env ?w ''TOGETHER_API_KEY'')
      \<and> generateIconPrompt (fst (getAppNameFromConfig ?w)) = Inr ?p"
    unfolding n by (simp add: truthyS_def generateIconPrompt_def quoted_def)
  have h4: "\<not> truthyS None \<and> truthyS (env ?w' ''TOGETHER_API_KEY'')
      \<and> generateIconPrompt (fst (getAppNameFromConfig ?w'))
          = Inl (TypeError ''Cannot convert object to primitive value'')"
    unfolding n' by (simp add: truthyS_def generateIconPrompt_def)
  have ne: "''Foo'' \<noteq> []" by simp
  have r: "requests ?w = []" "requests ?w' = []" by (simp_all add: emptyWorld_def)
  note t1 = icon_prompt_contains_app_name
    [of ?w ?c "''Foo''" None "''2024-01-15T10:30:45.123Z''", THEN conjunct1, rule_format, OF h1]
  note t2 = icon_prompt_contains_app_name
    [of emptyWorld JNull "[]" None "[]", THEN conjunct2, THEN conjunct1, rule_format, OF h2]
  note t3 = icon_prompt_contains_app_name
    [of ?w ?c "''Foo''" None "''2024-01-15T10:30:45.123Z''", THEN conjunct2, THEN conjunct2,
      THEN conjunct1, rule_format, OF h3]
  note t4 = icon_prompt_contains_app_name
    [of ?w' ?c' "''Foo''" None "''2024-01-15T10:30:45.123Z''", THEN conjunct2, THEN conjunct2,
      THEN conjunct2, rule_format, OF h4]
  have A: "\<exists>p. generateIconPrompt (fst (getAppNameFromConfig ?w)) = Inr p
      \<and> includesStr p (quoted ''Foo'')"
    using t1 ne by (elim exE conjE) (intro exI conjI, assumption, simp)
  have C: "requests (snd (main None ''2024-01-15T10:30:45.123Z'' ?w))
     = [ImagesCreate FLUX_MODEL_id ?p 208 208 4]"
    using t3 r(1) by simp
  have D: "fst (main None ''2024-01-15T10:30:45.123Z'' ?w') = Exit 1"
    by (rule t4 [THEN conjunct1])
  have E: "requests (snd (main None ''2024-01-15T10:30:45.123Z'' ?w')) = []"
    using t4 [THEN conjunct2] r(2) by simp
  show ?thesis
    by (rule conjI [OF A conjI [OF t2 [THEN conjunct1] conjI [OF C conjI [OF D E]]]])
qed

section \<open>The cleaners of stale images\<close>

lemma filter_names_id:
  "\<forall>e \<in> set es. fileName e \<noteq> file
   \<Longrightarrow> filter (\<lambda>e. \<not> (fileName e = file \<and> \<not> unlinkFails e)) es = es"
  by (induction es) auto

lemma unlinkSync_filter:
  assumes "distinct (map fileName dir)"
  shows "(case unlinkSync file dir of Inl err \<Rightarrow> dir | Inr dir' \<Rightarrow> dir')
           = filter (\<lambda>e. \<not> (fileName e = file \<and> \<not> unlinkFails e)) dir"
  using assms
proof (induction dir)
  case Nil
  then show ?case by simp
next
  case (Cons e es)
  show ?case
  proof (cases "fileName e = file")
    case True
    from Cons.prems have "fileName e \<notin> fileName ` set es" by simp
    then have "\<forall>x \<in> set es. fileName x \<noteq> fileName e" by (auto simp: image_iff)
    with True have "\<forall>x \<in> set es. fileName x \<noteq> file" by simp
    from filter_names_id [OF this] True show ?thesis by simp
  next
    case False
    with Cons show ?thesis by (simp split: sum.splits)
  qed
qed

lemma unlinkEach_filter:
  assumes "distinct (map fileName dir)"
  shows "fst (unlinkEach files dir log)
           = filter (\<lambda>e. \<not> (fileName e \<in> set files \<and> \<not> unlinkFails e)) dir"
  using assms
proof (induction files arbitrary: dir log)
  case Nil
  then show ?case by simp
next
  case (Cons f fs)
  let ?dir1 = "filter (\<lambda>e. \<not> (fileName e = f \<and> \<not> unlinkFails e)) dir"
  have d1: "distinct (map fileName ?dir1)"
    using Cons.prems by (simp add: distinct_map_filter)
  have step: "\<exists>log'. unlinkEach (f # fs) dir log = unlinkEach fs ?dir1 log'"
    using unlinkSync_filter [OF Cons.prems, of f] by (auto split: sum.splits)
  then obtain log' where "unlinkEach (f # fs) dir log = unlinkEach fs ?dir1 log'" ..
  then have "fst (unlinkEach (f # fs) dir log)
      = filter (\<lambda>e. \<not> (fileName e \<in> set fs \<and> \<not> unlinkFails e)) ?dir1"
    using Cons.IH [OF d1, of log'] by simp
  also have "\<dots> = filter (\<lambda>e. \<not> (fileName e \<in> set (f # fs) \<and> \<not> unlinkFails e)) dir"
    by (induction dir) auto
  finally show ?case .
qed

lemma filter_listed:
  "filter (\<lambda>e. \<not> (fileName e \<in> set (filter P (map fileName dir)) \<and> \<not> unlinkFails e)) dir
     = filter (\<lambda>e. \<not> (P (fileName e) \<and> \<not> unlinkFails e)) dir"
  by (rule filter_cong) auto

lemma unlinkSync_isl:
  assumes "distinct (map fileName dir)"
  shows "isl (unlinkSync file dir)
           \<longleftrightarrow> \<not> (\<exists>e \<in> set dir. fileName e = file \<and> \<not> unlinkFails e)"
  using assms
proof (induction dir)
  case Nil
  then show ?case by simp
next
  case (Cons e es)
  show ?case
  proof (cases "fileName e = file")
    case True
    from Cons.prems have "fileName e \<notin> fileName ` set es" by simp
    then have "\<forall>x \<in> set es. fileName x \<noteq> fileName e" by (auto simp: image_iff)
    with True show ?thesis by simp
  next
    case False
    with Cons show ?thesis by (cases "unlinkSync file es") simp_all
  qed
qed

lemma unlinkEach_log:
  assumes "distinct (map fileName dir)" "distinct files"
  shows "snd (unlinkEach files dir log)
           = log @ map (\<lambda>f. Warn (''   Failed to delete: '' @ f))
                     (filter (\<lambda>f. \<not> (\<exists>e \<in> set dir. fileName e = f \<and> \<not> unlinkFails e)) files)"
  using assms
proof (induction files arbitrary: dir log)
  case Nil
  then show ?case by simp
next
  case (Cons f fs)
  have dfs: "distinct fs" and nf: "f \<notin> set fs" using Cons.prems(2) by simp_all
  show ?case
  proof (cases "unlinkSync f dir")
    case (Inl err)
    then have "isl (unlinkSync f dir)" by simp
    then have fails: "\<not> (\<exists>e \<in> set dir. fileName e = f \<and> \<not> unlinkFails e)"
      using unlinkSync_isl [OF Cons.prems(1), of f] by simp
    have flt: "filter (\<lambda>g. \<not> (\<exists>e \<in> set dir. fileName e = g \<and> \<not> unlinkFails e)) (f # fs)
        = f # filter (\<lambda>g. \<not> (\<exists>e \<in> set dir. fileName e = g \<and> \<not> unlinkFails e)) fs"
      using fails by simp
    have "snd (unlinkEach (f # fs) dir log)
        = snd (unlinkEach fs dir (log @ [Warn (''   Failed to delete: '' @ f)]))"
      using Inl by simp
    also have "\<dots> = (log @ [Warn (''   Failed to delete: '' @ f)])
        @ map (\<lambda>f. Warn (''   Failed to delete: '' @ f))
            (filter (\<lambda>g. \<not> (\<exists>e \<in> set dir. fileName e = g \<and> \<not> unlinkFails e)) fs)"
      by (rule Cons.IH [OF Cons.prems(1) dfs])
    finally show ?thesis unfolding flt by simp
  next
    case (Inr dir')
    let ?dir1 = "filter (\<lambda>e. \<not> (fileName e = f \<and> \<not> unlinkFails e)) dir"
    from Inr have "\<not> isl (unlinkSync f dir)" by simp
    then have ok: "\<exists>e \<in> set dir. fileName e = f \<and> \<not> unlinkFails e"
      using unlinkSync_isl [OF Cons.prems(1), of f] by simp
    have d': "dir' = ?dir1"
      using unlinkSync_filter [OF Cons.prems(1), of f] Inr by simp
    have d1: "distinct (map fileName ?dir1)"
      using Cons.prems(1) by (simp add: distinct_map_filter)
    have same: "filter (\<lambda>g. \<not> (\<exists>e \<in> set ?dir1. fileName e = g \<and> \<not> unlinkFails e)) fs
        = filter (\<lambda>g. \<not> (\<exists>e \<in> set dir. fileName e = g \<and> \<not> unlinkFails e)) fs"
      using nf by (intro filter_cong refl) auto
    have "snd (unlinkEach (f # fs) dir log) = snd (unlinkEach fs ?dir1 log)"
      using Inr d' by simp
    also have "\<dots> = log @ map (\<lambda>f. Warn (''   Failed to delete: '' @ f))
            (filter (\<lambda>g. \<not> (\<exists>e \<in> set ?dir1. fileName e = g \<and> \<not> unlinkFails e)) fs)"
      by (rule Cons.IH [OF d1 dfs])
    finally have step: "snd (unlinkEach (f # fs) dir log)
        = log @ map (\<lambda>f. Warn (''   Failed to delete: '' @ f))
            (filter (\<lambda>g. \<not> (\<exists>e \<in> set dir. fileName e = g \<and> \<not> unlinkFails e)) fs)"
      by (simp only: same)
    have flt: "filter (\<lambda>g. \<not> (\<exists>e \<in> set dir. fileName e = g \<and> \<not> unlinkFails e)) (f # fs)
        = filter (\<lambda>g. \<not> (\<exists>e \<in> set dir. fileName e = g \<and> \<not> unlinkFails e)) fs"
      using ok by simp
    show ?thesis unfolding flt by (rule step)
  qed
qed

lemma warned_listed:
  assumes "distinct (map fileName dir)"
  shows "filter (\<lambda>f. \<not> (\<exists>e \<in> set dir. fileName e = f \<and> \<not> unlinkFails e))
            (filter P (map fileName dir))
           = map fileName (filter (\<lambda>e. P (fileName e) \<and> unlinkFails e) dir)"
proof -
  have inj: "inj_on fileName (set dir)" using assms by (simp add: distinct_map)
  have "filter (\<lambda>e. P (fileName e)
                  \<and> \<not> (\<exists>e' \<in> set dir. fileName e' = fileName e \<and> \<not> unlinkFails e')) dir
      = filter (\<lambda>e. P (fileName e) \<and> unlinkFails e) dir"
    using inj by (intro filter_cong refl) (auto dest: inj_onD)
  then show ?thesis by (simp add: filter_map o_def conj_commute)
qed

lemma unlinkEach_listed:
  assumes "distinct (map fileName dir)"
  shows "unlinkEach (filter P (map fileName dir)) dir log
     = (filter (\<lambda>e. \<not> (P (fileName e) \<and> \<not> unlinkFails e)) dir,
        log @ map (\<lambda>e. Warn (''   Failed to delete: '' @ fileName e))
                (filter (\<lambda>e. P (fileName e) \<and> unlinkFails e) dir))"
proof -
  have df: "distinct (filter P (map fileName dir))" using assms by simp
  have 1: "fst (unlinkEach (filter P (map fileName dir)) dir log)
      = filter (\<lambda>e. \<not> (P (fileName e) \<and> \<not> unlinkFails e)) dir"
    by (simp only: unlinkEach_filter [OF assms] filter_listed)
  have 2: "snd (unlinkEach (filter P (map fileName dir)) dir log)
      = log @ map (\<lambda>e. Warn (''   Failed to delete: '' @ fileName e))
                (filter (\<lambda>e. P (fileName e) \<and> unlinkFails e) dir)"
    by (simp only: unlinkEach_log [OF assms df] warned_listed [OF assms]) (simp add: o_def)
  from 1 2 show ?thesis by (simp add: prod_eq_iff)
qed

lemma nothing_listed:
  assumes "filter P (map fileName dir) = []"
  shows "filter (\<lambda>e. \<not> (P (fileName e) \<and> \<not> unlinkFails e)) dir = dir"
    and "filter (\<lambda>e. P (fileName e) \<and> unlinkFails e) dir = []"
proof -
  from assms have "\<forall>e \<in> set dir. \<not> P (fileName e)"
    by (simp add: filter_empty_conv)
  then show "filter (\<lambda>e. \<not> (P (fileName e) \<and> \<not> unlinkFails e)) dir = dir"
    and "filter (\<lambda>e. P (fileName e) \<and> unlinkFails e) dir = []"
    by (simp_all add: filter_empty_conv)
qed

lemma clearExistingScreenshots_world:
  assumes "imagesDir w = Some dir" "distinct (map fileName dir)"
  shows "clearExistingScreenshots w
     = w\<lparr>imagesDir :=
           Some (filter (\<lambda>e. \<not> (isScreenshotFile (fileName e) \<and> \<not> unlinkFails e)) dir),
         stderr := stderr w
           @ map (\<lambda>e. Warn (''   Failed to delete: '' @ fileName e))
               (filter (\<lambda>e. isScreenshotFile (fileName e) \<and> unlinkFails e) dir)\<rparr>"
proof (cases "filter isScreenshotFile (map fileName dir) = []")
  case True
  have "clearExistingScreenshots w = w"
    using True assms(1) by (simp add: clearExistingScreenshots_def)
  moreover have "w\<lparr>imagesDir := Some dir, stderr := stderr w\<rparr> = w"
    using assms(1) by (cases w) simp
  ultimately show ?thesis
    by (simp only: nothing_listed [OF True] list.map append_Nil2)
next
  case False
  then show ?thesis
    using assms(1)
    by (simp add: clearExistingScreenshots_def Let_def unlinkEach_listed [OF assms(2)])
qed

lemma clearExistingIcons_world:
  assumes "imagesDir w = Some dir" "distinct (map fileName dir)"
  shows "clearExistingIcons w
     = w\<lparr>imagesDir :=
           Some (filter (\<lambda>e. \<not> (isIconFile (fileName e) \<and> \<not> unlinkFails e)) dir),
         stderr := stderr w
           @ map (\<lambda>e. Warn (''   Failed to delete: '' @ fileName e))
               (filter (\<lambda>e. isIconFile (fileName e) \<and> unlinkFails e) dir)\<rparr>"
  using assms(1)
  by (simp add: clearExistingIcons_def Let_def unlinkEach_listed [OF assms(2)])

text \<open>
  Claim C2, as amended. For every listing of the images directory (its names are
  distinct), the cleaner of the screenshot script removes exactly the entries whose
  name starts with \<open>screenshot-embed-\<close> or \<open>screenshot-splash-\<close>, ends with
  \<open>.png\<close>, and whose deletion does not fail; for each entry with such a name whose
  deletion fails it logs the warning \<open>Failed to delete: <name>\<close>, in the order of
  the listing, and keeps the entry; every other entry stays as it is, and nothing else
  changes. The cleaner of the icon script does the same for the names that start with
  \<open>flux-icon-\<close> and end with \<open>.png\<close>. A second run removes nothing more from
  the directory. When the directory does not exist the cleaners do nothing.
\<close>

theorem cleaners_delete_matching_files:
  "(imagesDir w = Some dir \<and> distinct (map fileName dir) \<longrightarrow>
      clearExistingScreenshots w
        = w\<lparr>imagesDir :=
              Some (filter (\<lambda>e. \<not> (isScreenshotFile (fileName e) \<and> \<not> unlinkFails e)) dir),
            stderr := stderr w
              @ map (\<lambda>e. Warn (''   Failed to delete: '' @ fileName e))
                  (filter (\<lambda>e. isScreenshotFile (fileName e) \<and> unlinkFails e) dir)\<rparr>
      \<and> clearExistingIcons w
        = w\<lparr>imagesDir :=
              Some (filter (\<lambda>e. \<not> (isIconFile (fileName e) \<and> \<not> unlinkFails e)) dir),
            stderr := stderr w
              @ map (\<lambda>e. Warn (''   Failed to delete: '' @ fileName e))
                  (filter (\<lambda>e. isIconFile (fileName e) \<and> unlinkFails e) dir)\<rparr>
      \<and> imagesDir (clearExistingScreenshots (clearExistingScreenshots w))
        = imagesDir (clearExistingScreenshots w)
      \<and> imagesDir (clearExistingIcons (clearExistingIcons w))
        = imagesDir (clearExistingIcons w))
   \<and> (imagesDir w = None \<longrightarrow> clearExistingScreenshots w = w \<and> clearExistingIcons w = w)
   \<and> (isScreenshotFile file \<longleftrightarrow>
        (startsWith file ''screenshot-embed-'' \<or> startsWith file ''screenshot-splash-'')
        \<and> endsWith file ''.png'')
   \<and> (isIconFile file \<longleftrightarrow> startsWith file ''flux-icon-'' \<and> endsWith file ''.png'')"
proof -
  have some: "clearExistingScreenshots w
        = w\<lparr>imagesDir :=
              Some (filter (\<lambda>e. \<not> (isScreenshotFile (fileName e) \<and> \<not> unlinkFails e)) dir),
            stderr := stderr w
              @ map (\<lambda>e. Warn (''   Failed to delete: '' @ fileName e))
                  (filter (\<lambda>e. isScreenshotFile (fileName e) \<and> unlinkFails e) dir)\<rparr>
      \<and> clearExistingIcons w
        = w\<lparr>imagesDir :=
              Some (filter (\<lambda>e. \<not> (isIconFile (fileName e) \<and> \<not> unlinkFails e)) dir),
            stderr := stderr w
              @ map (\<lambda>e. Warn (''   Failed to delete: '' @ fileName e))
                  (filter (\<lambda>e. isIconFile (fileName e) \<and> unlinkFails e) dir)\<rparr>
      \<and> imagesDir (clearExistingScreenshots (clearExistingScreenshots w))
        = imagesDir (clearExistingScreenshots w)
      \<and> imagesDir (clearExistingIcons (clearExistingIcons w))
        = imagesDir (clearExistingIcons w)"
    if a: "imagesDir w = Some dir" "distinct (map fileName dir)"
  proof -
    let ?s = "filter (\<lambda>e. \<not> (isScreenshotFile (fileName e) \<and> \<not> unlinkFails e)) dir"
    let ?i = "filter (\<lambda>e. \<not> (isIconFile (fileName e) \<and> \<not> unlinkFails e)) dir"
    note sw = clearExistingScreenshots_world [OF a]
    note iw = clearExistingIcons_world [OF a]
    have s1: "imagesDir (clearExistingScreenshots w) = Some ?s"
      by (simp add: sw)
    have i1: "imagesDir (clearExistingIcons w) = Some ?i"
      by (simp add: iw)
    have ds: "distinct (map fileName ?s)" and di: "distinct (map fileName ?i)"
      using a(2) by (simp_all add: distinct_map_filter)
    have s2: "imagesDir (clearExistingScreenshots (clearExistingScreenshots w)) = Some ?s"
      by (simp add: clearExistingScreenshots_world [OF s1 ds])
    have i2: "imagesDir (clearExistingIcons (clearExistingIcons w)) = Some ?i"
      by (simp add: clearExistingIcons_world [OF i1 di])
    have s3: "imagesDir (clearExistingScreenshots (clearExistingScreenshots w))
        = imagesDir (clearExistingScreenshots w)"
      by (simp only: s1 s2)
    have i3: "imagesDir (clearExistingIcons (clearExistingIcons w))
        = imagesDir (clearExistingIcons w)"
      by (simp only: i1 i2)
    show ?thesis by (rule conjI [OF sw conjI [OF iw conjI [OF s3 i3]]])
  qed
  have none: "clearExistingScreenshots w = w \<and> clearExistingIcons w = w"
    if "imagesDir w = None"
    using that by (simp add: clearExistingScreenshots_def clearExistingIcons_def)
  have defs: "(isScreenshotFile file \<longleftrightarrow>
        (startsWith file ''screenshot-embed-'' \<or> startsWith file ''screenshot-splash-'')
        \<and> endsWith file ''.png'')
   \<and> (isIconFile file \<longleftrightarrow> startsWith file ''flux-icon-'' \<and> endsWith file ''.png'')"
    by (simp add: isScreenshotFile_def isIconFile_def)
  show ?thesis
  proof (intro conjI impI)
    assume "imagesDir w = Some dir \<and> distinct (map fileName dir)"
    then have a: "imagesDir w = Some dir" "distinct (map fileName dir)" by simp_all
    from some [OF a] show "clearExistingScreenshots w
        = w\<lparr>imagesDir :=
              Some (filter (\<lambda>e. \<not> (isScreenshotFile (fileName e) \<and> \<not> unlinkFails e)) dir),
            stderr := stderr w
              @ map (\<lambda>e. Warn (''   Failed to delete: '' @ fileName e))
                  (filter (\<lambda>e. isScreenshotFile (fileName e) \<and> unlinkFails e) dir)\<rparr>"
      by (rule conjunct1)
    from some [OF a] show "clearExistingIcons w
        = w\<lparr>imagesDir :=
              Some (filter (\<lambda>e. \<not> (isIconFile (fileName e) \<and> \<not> unlinkFails e)) dir),
            stderr := stderr w
              @ map (\<lambda>e. Warn (''   Failed to delete: '' @ fileName e))
                  (filter (\<lambda>e. isIconFile (fileName e) \<and> unlinkFails e) dir)\<rparr>"
      by (rule conjunct2 [THEN conjunct1])
    from some [OF a] show "imagesDir (clearExistingScreenshots (clearExistingScreenshots w))
        = imagesDir (clearExistingScreenshots w)"
      by (rule conjunct2 [THEN conjunct2, THEN conjunct1])
    from some [OF a] show "imagesDir (clearExistingIcons (clearExistingIcons w))
        = imagesDir (clearExistingIcons w)"
      by (rule conjunct2 [THEN conjunct2, THEN conjunct2])
  next
    assume n: "imagesDir w = None"
    from none [OF n] show "clearExistingScreenshots w = w" by (rule conjunct1)
    from none [OF n] show "clearExistingIcons w = w" by (rule conjunct2)
  next
    from defs show "isScreenshotFile file \<longleftrightarrow>
        (startsWith file ''screenshot-embed-'' \<or> startsWith file ''screenshot-splash-'')
        \<and> endsWith file ''.png''" by (rule conjunct1)
    from defs show "isIconFile file \<longleftrightarrow> startsWith file ''flux-icon-'' \<and> endsWith file ''.png''"
      by (rule conjunct2)
  qed
qed

theorem cleaners_delete_matching_files_witness:
  "clearExistingScreenshots
      (emptyWorld\<lparr>imagesDir := Some
         [\<lparr>fileName = ''screenshot-embed-A.png'', fileData = Bytes ''old'', unlinkFails = False\<rparr>,
          \<lparr>fileName = ''screenshot-splash-B.png'', fileData = Bytes ''dir'', unlinkFails = True\<rparr>,
          \<lparr>fileName = ''unrelated.png'', fileData = Bytes ''keep'', unlinkFails = False\<rparr>]\<rparr>)
     = emptyWorld\<lparr>imagesDir := Some
         [\<lparr>fileName = ''screenshot-splash-B.png'', fileData = Bytes ''dir'', unlinkFails = True\<rparr>,
          \<lparr>fileName = ''unrelated.png'', fileData = Bytes ''keep'', unlinkFails = False\<rparr>],
         stderr := [Warn ''   Failed to delete: screenshot-splash-B.png'']\<rparr>
   \<and> imagesDir (clearExistingScreenshots (clearExistingScreenshots
      (emptyWorld\<lparr>imagesDir := Some
         [\<lparr>fileName = ''screenshot-embed-A.png'', fileData = Bytes ''old'', unlinkFails = False\<rparr>,
          \<lparr>fileName = ''screenshot-splash-B.png'', fileData = Bytes ''dir'', unlinkFails = True\<rparr>,
          \<lparr>fileName = ''unrelated.png'', fileData = Bytes ''keep'', unlinkFails = False\<rparr>]\<rparr>)))
     = Some
         [\<lparr>fileName = ''screenshot-splash-B.png'', fileData = Bytes ''dir'', unlinkFails = True\<rparr>,
          \<lparr>fileName = ''unrelated.png'', fileData = Bytes ''keep'', unlinkFails = False\<rparr>]
   \<and> clearExistingIcons emptyWorld = emptyWorld"
proof -
  let ?dir = "[\<lparr>fileName = ''screenshot-embed-A.png'', fileData = Bytes ''old'', unlinkFails = False\<rparr>,
          \<lparr>fileName = ''screenshot-splash-B.png'', fileData = Bytes ''dir'', unlinkFails = True\<rparr>,
          \<lparr>fileName = ''unrelated.png'', fileData = Bytes ''keep'', unlinkFails = False\<rparr>]"
  let ?w = "emptyWorld\<lparr>imagesDir := Some ?dir\<rparr>"
  have h: "imagesDir ?w = Some ?dir \<and> distinct (map fileName ?dir)" by simp
  have n: "imagesDir emptyWorld = None" by (simp add: emptyWorld_def)
  note t = cleaners_delete_matching_files [of ?w ?dir "[]", THEN conjunct1, rule_format, OF h]
  note u = cleaners_delete_matching_files
    [of emptyWorld "[]" "[]", THEN conjunct2, THEN conjunct1, rule_format, OF n]
  have A: "clearExistingScreenshots ?w
     = emptyWorld\<lparr>imagesDir := Some
         [\<lparr>fileName = ''screenshot-splash-B.png'', fileData = Bytes ''dir'', unlinkFails = True\<rparr>,
          \<lparr>fileName = ''unrelated.png'', fileData = Bytes ''keep'', unlinkFails = False\<rparr>],
         stderr := [Warn ''   Failed to delete: screenshot-splash-B.png'']\<rparr>"
    using t [THEN conjunct1]
    by (simp add: emptyWorld_def isScreenshotFile_def startsWith_def endsWith_def
        suffix_to_prefix)
  have B: "imagesDir (clearExistingScreenshots (clearExistingScreenshots ?w))
     = Some
         [\<lparr>fileName = ''screenshot-splash-B.png'', fileData = Bytes ''dir'', unlinkFails = True\<rparr>,
          \<lparr>fileName = ''unrelated.png'', fileData = Bytes ''keep'', unlinkFails = False\<rparr>]"
    using t [THEN conjunct2, THEN conjunct2, THEN conjunct1] by (simp only: A) simp
  show ?thesis by (rule conjI [OF A conjI [OF B u [THEN conjunct2]]])
qed

text \<open>
  Two stale files that stay. The deletion of \<open>screenshot-embed-A.png\<close> fails: the
  cleaner warns and the file stays. \<open>screenshot-icon-1.png\<close> starts with
  \<open>screenshot\<close>, the prefix \<open>generateFilename\<close> gives its names, and ends with
  \<open>.png\<close>, and can be deleted: the cleaner does not select it, and it stays.
\<close>

theorem clearExistingScreenshots_unlink_fails_counterexample:
  "clearExistingScreenshots
      (emptyWorld\<lparr>imagesDir := Some
         [\<lparr>fileName = ''screenshot-embed-A.png'', fileData = Bytes ''old'', unlinkFails = True\<rparr>,
          \<lparr>fileName = ''screenshot-icon-1.png'', fileData = Bytes ''icon'', unlinkFails = False\<rparr>,
          \<lparr>fileName = ''unrelated.png'', fileData = Bytes ''keep'', unlinkFails = False\<rparr>]\<rparr>)
     = emptyWorld\<lparr>imagesDir := Some
         [\<lparr>fileName = ''screenshot-embed-A.png'', fileData = Bytes ''old'', unlinkFails = True\<rparr>,
          \<lparr>fileName = ''screenshot-icon-1.png'', fileData = Bytes ''icon'', unlinkFails = False\<rparr>,
          \<lparr>fileName = ''unrelated.png'', fileData = Bytes ''keep'', unlinkFails = False\<rparr>],
         stderr := [Warn ''   Failed to delete: screenshot-embed-A.png'']\<rparr>
   \<and> isScreenshotFile ''screenshot-embed-A.png''
   \<and> startsWith ''screenshot-icon-1.png'' ''screenshot''
   \<and> endsWith ''screenshot-icon-1.png'' ''.png''
   \<and> startsWith (generateFilename ''embed'' None ''2024-01-15T10:30:45.123Z'') ''screenshot''
   \<and> \<not> isScreenshotFile ''screenshot-icon-1.png''"
  by (simp add: clearExistingScreenshots_def emptyWorld_def isScreenshotFile_def startsWith_def
      endsWith_def suffix_to_prefix generateFilename_def)

end
